theory Spec2Isabelle
  imports Complex_Main
begin

section \<open>The scene graph of the Manifold 3D scene builder\<close>

text \<open>
  The server keeps one scene graph in memory: a table of objects keyed by identifier and
  a list of connections. Two variants of the server are in the repository. The first
  keeps the graph in memory only and guards \<open>execute_code\<close> by the environment variable
  \<open>ENABLE_EXECUTE_CODE\<close>; the second (the persistence variant) adds a version counter
  and writes the state to a file after every committed change. The tools of the
  persistence variant are embedded below, each as a function from the server state to a
  response and the next server state; of the first variant, \<open>execute_code\<close> is embedded.

  Conventions of the embedding.
  \<^item> A JavaScript \<open>number\<close> is a \<open>real\<close>: the finite values, with exact arithmetic.
    \<open>NaN\<close> and the infinities are outside the model. The counters \<open>idCounter\<close> and
    \<open>sceneVersion\<close> only ever hold non-negative integers and are \<open>nat\<close>.
  \<^item> The \<open>objects\<close> table is a map from its own keys to their values; the listing
    order of the keys is not modelled. The table is a plain JavaScript object, so reading
    \<open>sceneState.objects[id]\<close> for an \<open>id\<close> that is no key of the table yields the member
    of \<open>Object.prototype\<close> of that name, when there is one (see \<open>inherited\<close>).
  \<^item> An optional field of a tool's input (\<open>undefined\<close> when left out) is an \<open>option\<close>.
  \<^item> A tool's error answer is a value of the type \<open>error\<close>, one constructor for each
    place of the source that produces an error text.
\<close>

subsection \<open>Types\<close>

record Vec3 =
  x :: real
  y :: real
  z :: real

datatype Face = FTop | FBottom | FLeft | FRight | FFront | FBack | FCenter

text \<open>The value of the field \<open>type\<close> in the input of \<open>add_object\<close>.\<close>

datatype kind = box | sphere | cylinder | cone | plane

text \<open>
  \<open>SceneObject\<close> is a tagged union: five fields common to every object, and the
  dimensions its \<open>type\<close> declares. The tag and the dimensions are the field \<open>geom\<close>:
  \<open>Box width height depth\<close>, \<open>Sphere radius\<close>, \<open>Cylinder radius height\<close>,
  \<open>Cone radius height\<close>, \<open>Plane width depth\<close>.
\<close>

datatype geometry =
    Box real real real
  | Sphere real
  | Cylinder real real
  | Cone real real
  | Plane real real

record SceneObject =
  obj_id :: string
  name :: string
  position :: Vec3
  scale :: Vec3
  color :: string
  geom :: geometry

text \<open>
  \<open>update_object\<close> can store an object that has none of the fields of a \<open>SceneObject\<close>
  but those its payload carries (see \<open>assertObject\<close> and \<open>update_object\<close>). Such an
  object is a \<open>PartialObject\<close>; an entry of the table is an \<open>Obj\<close> or a \<open>Partial\<close>.
\<close>

record PartialObject =
  q_name :: "string option"
  q_position :: "Vec3 option"
  q_scale :: "Vec3 option"
  q_color :: "string option"

datatype entry = Obj SceneObject | Partial PartialObject

record Connection =
  from_id :: string
  face_a :: Face
  to_id :: string
  face_b :: Face

record SceneState =
  objects :: "string \<rightharpoonup> entry"
  connections :: "Connection list"

text \<open>The record written to \<open>.mcp-use/scene-state.json\<close>.\<close>

record persisted =
  p_sceneState :: SceneState
  p_idCounter :: nat
  p_sceneVersion :: nat

text \<open>
  The module-level variables of the persistence variant, and the contents of the state
  file (\<open>None\<close> while it has not been written).
\<close>

record Server =
  sceneState :: SceneState
  idCounter :: nat
  sceneVersion :: nat
  disk :: "persisted option"

definition init :: Server where
  "init = \<lparr> sceneState = \<lparr> objects = Map.empty, connections = [] \<rparr>,
            idCounter = 1, sceneVersion = 0, disk = None \<rparr>"

subsection \<open>Identifiers\<close>

text \<open>The decimal numeral of a natural number, as a template literal prints it.\<close>

fun dec :: "nat \<Rightarrow> string" where
  "dec n = (if n < 10 then [char_of (48 + n)]
            else dec (n div 10) @ [char_of (48 + n mod 10)])"

declare dec.simps [simp del]

text \<open>\<open>function nextId() { return `obj_${idCounter++}`; }\<close>\<close>

definition nextId :: "Server \<Rightarrow> string \<times> Server" where
  "nextId s = (''obj_'' @ dec (idCounter s), s\<lparr> idCounter := idCounter s + 1 \<rparr>)"

subsection \<open>Persistence\<close>

text \<open>
  \<open>persistState\<close> writes the three variables to the file; a failing write is caught and
  only logged. Whether the write succeeds is the argument \<open>fs_ok\<close>.
\<close>

definition persistState :: "bool \<Rightarrow> Server \<Rightarrow> Server" where
  "persistState fs_ok s =
     (if fs_ok
      then s\<lparr> disk := Some \<lparr> p_sceneState = sceneState s, p_idCounter = idCounter s,
                              p_sceneVersion = sceneVersion s \<rparr> \<rparr>
      else s)"

definition commitState :: "bool \<Rightarrow> Server \<Rightarrow> Server" where
  "commitState fs_ok s = persistState fs_ok (s\<lparr> sceneVersion := sceneVersion s + 1 \<rparr>)"

subsection \<open>Geometry helpers\<close>

definition getHalfExtents :: "SceneObject \<Rightarrow> Vec3" where
  "getHalfExtents ob =
     (let s = scale ob in
      case geom ob of
        Box width height depth \<Rightarrow>
          \<lparr> x = (width / 2) * x s, y = (height / 2) * y s, z = (depth / 2) * z s \<rparr>
      | Sphere radius \<Rightarrow>
          \<lparr> x = radius * x s, y = radius * y s, z = radius * z s \<rparr>
      | Cylinder radius height \<Rightarrow>
          \<lparr> x = radius * x s, y = (height / 2) * y s, z = radius * z s \<rparr>
      | Cone radius height \<Rightarrow>
          \<lparr> x = radius * x s, y = (height / 2) * y s, z = radius * z s \<rparr>
      | Plane width depth \<Rightarrow>
          \<lparr> x = (width / 2) * x s, y = 0, z = (depth / 2) * z s \<rparr>)"

definition faceOffset :: "SceneObject \<Rightarrow> Face \<Rightarrow> Vec3" where
  "faceOffset ob face =
     (let h = getHalfExtents ob in
      case face of
        FTop \<Rightarrow> \<lparr> x = 0, y = y h, z = 0 \<rparr>
      | FBottom \<Rightarrow> \<lparr> x = 0, y = - y h, z = 0 \<rparr>
      | FLeft \<Rightarrow> \<lparr> x = - x h, y = 0, z = 0 \<rparr>
      | FRight \<Rightarrow> \<lparr> x = x h, y = 0, z = 0 \<rparr>
      | FFront \<Rightarrow> \<lparr> x = 0, y = 0, z = z h \<rparr>
      | FBack \<Rightarrow> \<lparr> x = 0, y = 0, z = - z h \<rparr>
      | FCenter \<Rightarrow> \<lparr> x = 0, y = 0, z = 0 \<rparr>)"

text \<open>\<open>from.position = to.position + offset(face_b on to) - offset(face_a on from)\<close>\<close>

definition computeConnectPos :: "SceneObject \<Rightarrow> Face \<Rightarrow> SceneObject \<Rightarrow> Face \<Rightarrow> Vec3" where
  "computeConnectPos from fa to fb =
     (let a = faceOffset from fa; b = faceOffset to fb in
      \<lparr> x = x (position to) + x b - x a,
        y = y (position to) + y b - y a,
        z = z (position to) + z b - z a \<rparr>)"

subsection \<open>Validation helpers\<close>

datatype error =
    NotFound string
  | InvalidColor string
  | SandboxDisabled
  | SandboxExecutionError
  | TypeErrorThrown

text \<open>
  \<open>NotFound id\<close> is the error \<open>Object "id" not found\<close> thrown by \<open>assertObject\<close>;
  \<open>InvalidColor c\<close> is the answer \<open>Invalid color "c". Use hex format e.g. #ff0000\<close>;
  \<open>SandboxDisabled\<close> is the answer \<open>execute_code is disabled by default ...\<close>;
  \<open>SandboxExecutionError\<close> is the answer made from an exception caught around the
  script's run; \<open>TypeErrorThrown\<close> is the answer made from a \<open>TypeError\<close> caught by the
  \<open>catch\<close> of \<open>connect\<close>.
\<close>

text \<open>
  The names a plain object inherits from \<open>Object.prototype\<close>. Each is bound to a
  function, but \<open>__proto__\<close>, which yields \<open>Object.prototype\<close> itself: every one is
  truthy.
\<close>

definition inherited :: "string \<Rightarrow> bool" where
  "inherited ident =
     (ident \<in> set [''constructor'', ''toString'', ''toLocaleString'', ''valueOf'',
                    ''hasOwnProperty'', ''isPrototypeOf'', ''propertyIsEnumerable'',
                    ''__proto__'', ''__defineGetter__'', ''__defineSetter__'',
                    ''__lookupGetter__'', ''__lookupSetter__''])"

text \<open>
  What \<open>sceneState.objects[id]\<close> yields when it is truthy: an entry of the table, or a
  member of \<open>Object.prototype\<close>.
\<close>

datatype found = Own entry | Inherited

text \<open>
  \<open>const obj = sceneState.objects[id]; if (!obj) throw new Error(...); return obj;\<close>
  An entry of the table is an object and so truthy; the read is \<open>undefined\<close> only when
  \<open>id\<close> is neither a key of the table nor an inherited name.
\<close>

definition assertObject :: "SceneState \<Rightarrow> string \<Rightarrow> error + found" where
  "assertObject g ident =
     (case objects g ident of
        Some e \<Rightarrow> Inr (Own e)
      | None \<Rightarrow> if inherited ident then Inr Inherited else Inl (NotFound ident))"

text \<open>The character class \<open>[0-9a-fA-F]\<close>, by character codes.\<close>

definition isHexDigit :: "char \<Rightarrow> bool" where
  "isHexDigit c =
     (let n = (of_char c :: nat) in
      (48 \<le> n \<and> n \<le> 57) \<or> (97 \<le> n \<and> n \<le> 102) \<or> (65 \<le> n \<and> n \<le> 70))"

text \<open>\<open>/^#[0-9a-fA-F]{6}$/.test(s)\<close>\<close>

definition isHexColor :: "string \<Rightarrow> bool" where
  "isHexColor s =
     (case s of
        [] \<Rightarrow> False
      | c # cs \<Rightarrow> c = CHR ''#'' \<and> length cs = 6 \<and> list_all isHexDigit cs)"

text \<open>
  The guard \<open>color && !isHexColor(color)\<close> of \<open>add_object\<close> and \<open>update_object\<close>:
  \<open>undefined\<close> and the empty string are falsy, so neither reaches \<open>isHexColor\<close>.
\<close>

definition colorRejected :: "string option \<Rightarrow> bool" where
  "colorRejected c =
     (case c of
        None \<Rightarrow> False
      | Some cs \<Rightarrow> cs \<noteq> [] \<and> \<not> isHexColor cs)"

text \<open>The operator \<open>??\<close> on an optional value.\<close>

definition orDefault :: "'a option \<Rightarrow> 'a \<Rightarrow> 'a" where
  "orDefault v d = (case v of None \<Rightarrow> d | Some a \<Rightarrow> a)"

subsection \<open>Inputs and answers of the tools\<close>

text \<open>The field \<open>params\<close> of \<open>addObjectSchema\<close>; only \<open>name\<close> is required.\<close>

record AddParams =
  a_name :: string
  a_position :: "Vec3 option"
  a_scale :: "Vec3 option"
  a_color :: "string option"
  a_width :: "real option"
  a_height :: "real option"
  a_depth :: "real option"
  a_radius :: "real option"

text \<open>The field \<open>params\<close> of \<open>updateObjectSchema\<close>; every field is optional.\<close>

record UpdateParams =
  u_name :: "string option"
  u_position :: "Vec3 option"
  u_scale :: "Vec3 option"
  u_color :: "string option"
  u_width :: "real option"
  u_height :: "real option"
  u_depth :: "real option"
  u_radius :: "real option"

text \<open>
  What a tool returns: \<open>Failure e\<close> for \<open>error(...)\<close>; \<open>ObjectId i\<close> for
  \<open>object({ id })\<close>; \<open>Deleted i\<close> and \<open>Cleared\<close> for the two \<open>text(...)\<close> answers;
  \<open>Connected i p\<close> for \<open>object({ from_id, new_position })\<close>; \<open>Executed m n\<close> for the
  answer of \<open>execute_code\<close> with its two counts, and \<open>CodeExecuted\<close> for the answer
  without counts of the first variant; \<open>SceneJson g v\<close> for the scene with its version
  returned by \<open>get_scene_state\<close>.
\<close>

datatype response =
    Failure error
  | ObjectId string
  | Deleted string
  | Connected string Vec3
  | Cleared
  | Executed nat nat
  | CodeExecuted
  | SceneJson SceneState nat

fun succeeded :: "response \<Rightarrow> bool" where
  "succeeded (Failure e) = False"
| "succeeded r = True"

subsection \<open>The script interpreter\<close>

text \<open>
  \<open>vm.runInContext(code, ctx, { timeout: 1000 })\<close> runs a script in a context in which
  the name \<open>scene\<close> is bound to a copy of the scene. The script either throws, runs out
  of time, or finishes. After a finished run the server looks at what the script left in
  the context, and that look can fail too:
  \<^item> the persistence variant makes a second run, of the fixed text
    \<open>JSON.stringify({ objects: scene?.objects ?? {}, connections: scene?.connections ?? [] })\<close>,
    under the same time limit, and parses its result with \<open>JSON.parse\<close>. This throws
    when the script has removed the binding (\<open>delete scene\<close> makes \<open>scene\<close> a
    \<open>ReferenceError\<close>), has left a value that cannot be serialised, or has replaced
    \<open>JSON.stringify\<close> by a function whose result does not parse; the run can also run
    out of time; otherwise the snapshot is obtained (\<open>snapshot_result\<close>);
  \<^item> the first variant reads \<open>ctx.scene.objects\<close> and \<open>ctx.scene.connections\<close>, which
    can throw in a getter (\<open>read_result\<close>).
  What is found in \<open>scene\<close> is a \<open>scene_value\<close>: a nullish value, or an object whose
  fields \<open>objects\<close> and \<open>connections\<close> are as described by \<open>objects_field\<close> and
  \<open>connections_field\<close>. A value of \<open>objects\<close> that is neither nullish nor a table of
  entries is outside the model.

  The interpreter is a parameter of the model: a function from the script text and the
  copy of the scene to the outcome of the run and, when the run finished, of the look
  that follows it.
\<close>

datatype objects_field = ObjectsNullish | ObjectsMap "string \<rightharpoonup> entry"

datatype connections_field =
    ConnectionsNullish
  | ConnectionsArray "Connection list"
  | ConnectionsNotArray

datatype scene_value = SceneNullish | Scene objects_field connections_field

datatype snapshot_result = SnapshotThrew | SnapshotTimedOut | Snapshot scene_value

datatype read_result = ReadThrew | Read scene_value

datatype 'a vm_result = Threw | TimedOut | Finished 'a

type_synonym 'a vm = "string \<Rightarrow> SceneState \<Rightarrow> 'a vm_result"

subsection \<open>The tools of the persistence variant\<close>

definition get_scene_state :: "Server \<Rightarrow> response \<times> Server" where
  "get_scene_state s = (SceneJson (sceneState s) (sceneVersion s), s)"

definition add_object :: "bool \<Rightarrow> kind \<Rightarrow> AddParams \<Rightarrow> Server \<Rightarrow> response \<times> Server" where
  "add_object fs_ok ty params s =
     (let defaultPos = \<lparr> x = 0, y = 0, z = 0 \<rparr>;
          defaultScale = \<lparr> x = 1, y = 1, z = 1 \<rparr>;
          defaultColor = ''#888888''
      in
      if colorRejected (a_color params)
      then (Failure (InvalidColor (the (a_color params))), s)
      else
        let (ident, s1) = nextId s;
            g = (case ty of
                   box \<Rightarrow> Box (orDefault (a_width params) 100)
                              (orDefault (a_height params) 100)
                              (orDefault (a_depth params) 100)
                 | sphere \<Rightarrow> Sphere (orDefault (a_radius params) 50)
                 | cylinder \<Rightarrow> Cylinder (orDefault (a_radius params) 25)
                                        (orDefault (a_height params) 100)
                 | cone \<Rightarrow> Cone (orDefault (a_radius params) 25)
                                (orDefault (a_height params) 100)
                 | plane \<Rightarrow> Plane (orDefault (a_width params) 200)
                                  (orDefault (a_depth params) 200));
            ob = \<lparr> obj_id = ident, name = a_name params,
                   position = orDefault (a_position params) defaultPos,
                   scale = orDefault (a_scale params) defaultScale,
                   color = orDefault (a_color params) defaultColor,
                   geom = g \<rparr>;
            s2 = s1\<lparr> sceneState := (sceneState s1)\<lparr> objects := (objects (sceneState s1))(ident \<mapsto> Obj ob) \<rparr> \<rparr>
        in (ObjectId ident, commitState fs_ok s2))"

text \<open>
  The dimension updates of \<open>update_object\<close>: \<open>"width" in nextObj\<close> holds for a box and
  a plane, \<open>"height"\<close> for a box, a cylinder and a cone, \<open>"depth"\<close> for a box and a plane,
  \<open>"radius"\<close> for a sphere, a cylinder and a cone.
\<close>

fun set_width :: "real option \<Rightarrow> geometry \<Rightarrow> geometry" where
  "set_width (Some v) (Box w h d) = Box v h d"
| "set_width (Some v) (Plane w d) = Plane v d"
| "set_width _ g = g"

fun set_height :: "real option \<Rightarrow> geometry \<Rightarrow> geometry" where
  "set_height (Some v) (Box w h d) = Box w v d"
| "set_height (Some v) (Cylinder r h) = Cylinder r v"
| "set_height (Some v) (Cone r h) = Cone r v"
| "set_height _ g = g"

fun set_depth :: "real option \<Rightarrow> geometry \<Rightarrow> geometry" where
  "set_depth (Some v) (Box w h d) = Box w h v"
| "set_depth (Some v) (Plane w d) = Plane w v"
| "set_depth _ g = g"

fun set_radius :: "real option \<Rightarrow> geometry \<Rightarrow> geometry" where
  "set_radius (Some v) (Sphere r) = Sphere v"
| "set_radius (Some v) (Cylinder r h) = Cylinder v h"
| "set_radius (Some v) (Cone r h) = Cone v h"
| "set_radius _ g = g"

text \<open>
  The spread \<open>{ ...obj, ...(name !== undefined ? { name } : null), ... }\<close> on an object that
  is no \<open>SceneObject\<close>: the fields of the payload laid over those already there.
\<close>

definition overlay :: "UpdateParams \<Rightarrow> PartialObject \<Rightarrow> PartialObject" where
  "overlay params q =
     \<lparr> q_name = (case u_name params of None \<Rightarrow> q_name q | Some v \<Rightarrow> Some v),
       q_position = (case u_position params of None \<Rightarrow> q_position q | Some v \<Rightarrow> Some v),
       q_scale = (case u_scale params of None \<Rightarrow> q_scale q | Some v \<Rightarrow> Some v),
       q_color = (case u_color params of None \<Rightarrow> q_color q | Some v \<Rightarrow> Some v) \<rparr>"

definition no_fields :: PartialObject where
  "no_fields = \<lparr> q_name = None, q_position = None, q_scale = None, q_color = None \<rparr>"

text \<open>
  \<open>update_object\<close>. For an entry \<open>Obj ob\<close> the spread keeps every field of \<open>ob\<close> and the
  four dimension updates test \<open>in\<close> on its fields. A member of \<open>Object.prototype\<close> has no
  enumerable property of its own, so its spread is the empty object; neither it nor a
  \<open>Partial\<close> has a dimension field, and the four tests fail.
\<close>

definition update_object :: "bool \<Rightarrow> string \<Rightarrow> UpdateParams \<Rightarrow> Server \<Rightarrow> response \<times> Server" where
  "update_object fs_ok ident params s =
     (case assertObject (sceneState s) ident of
        Inl e \<Rightarrow> (Failure e, s)
      | Inr v \<Rightarrow>
          if colorRejected (u_color params)
          then (Failure (InvalidColor (the (u_color params))), s)
          else
            let nextObj =
                  (case v of
                     Own (Obj ob) \<Rightarrow>
                       (let nextObj0 = ob\<lparr> name := orDefault (u_name params) (name ob),
                                           position := orDefault (u_position params) (position ob),
                                           scale := orDefault (u_scale params) (scale ob),
                                           color := orDefault (u_color params) (color ob) \<rparr>;
                            nextObj1 = nextObj0\<lparr> geom := set_width (u_width params) (geom nextObj0) \<rparr>;
                            nextObj2 = nextObj1\<lparr> geom := set_height (u_height params) (geom nextObj1) \<rparr>;
                            nextObj3 = nextObj2\<lparr> geom := set_depth (u_depth params) (geom nextObj2) \<rparr>;
                            nextObj4 = nextObj3\<lparr> geom := set_radius (u_radius params) (geom nextObj3) \<rparr>
                        in Obj nextObj4)
                   | Own (Partial q) \<Rightarrow> Partial (overlay params q)
                   | Inherited \<Rightarrow> Partial (overlay params no_fields));
                s1 = s\<lparr> sceneState := (sceneState s)\<lparr> objects := (objects (sceneState s))(ident \<mapsto> nextObj) \<rparr> \<rparr>
            in (ObjectId ident, commitState fs_ok s1))"

text \<open>
  \<open>delete_object\<close>: \<open>const { [id]: _deleted, ...rest } = sceneState.objects\<close> copies the
  table's own keys but \<open>id\<close>.
\<close>

definition delete_object :: "bool \<Rightarrow> string \<Rightarrow> Server \<Rightarrow> response \<times> Server" where
  "delete_object fs_ok ident s =
     (case assertObject (sceneState s) ident of
        Inl e \<Rightarrow> (Failure e, s)
      | Inr v \<Rightarrow>
          let rest = (objects (sceneState s))(ident := None);
              s1 = s\<lparr> sceneState :=
                       \<lparr> objects = rest,
                         connections = filter (\<lambda>c. from_id c \<noteq> ident \<and> to_id c \<noteq> ident)
                                         (connections (sceneState s)) \<rparr> \<rparr>
          in (Deleted ident, commitState fs_ok s1))"

text \<open>
  \<open>connect\<close>. On an operand that is no \<open>SceneObject\<close> the field \<open>type\<close> is \<open>undefined\<close>,
  no case of the \<open>switch\<close> in \<open>getHalfExtents\<close> is taken, the function returns
  \<open>undefined\<close>, and \<open>faceOffset\<close> throws a \<open>TypeError\<close> on reading \<open>h.y\<close>; the
  \<open>catch\<close> of \<open>connect\<close> turns it into an error answer.
\<close>

definition connect :: "bool \<Rightarrow> string \<Rightarrow> Face \<Rightarrow> string \<Rightarrow> Face \<Rightarrow> Server \<Rightarrow> response \<times> Server" where
  "connect fs_ok fromId faceA toId faceB s =
     (case assertObject (sceneState s) fromId of
        Inl e \<Rightarrow> (Failure e, s)
      | Inr fromV \<Rightarrow>
          (case assertObject (sceneState s) toId of
             Inl e \<Rightarrow> (Failure e, s)
           | Inr toV \<Rightarrow>
               (case (fromV, toV) of
                  (Own (Obj fromObj), Own (Obj toObj)) \<Rightarrow>
                    let newPos = computeConnectPos fromObj faceA toObj faceB;
                        s1 = s\<lparr> sceneState :=
                                 \<lparr> objects = (objects (sceneState s))
                                     (fromId \<mapsto> Obj (fromObj\<lparr> position := newPos \<rparr>)),
                                   connections = connections (sceneState s) @
                                     [\<lparr> from_id = fromId, face_a = faceA,
                                        to_id = toId, face_b = faceB \<rparr>] \<rparr> \<rparr>
                    in (Connected fromId newPos, commitState fs_ok s1)
                | _ \<Rightarrow> (Failure TypeErrorThrown, s))))"

definition clear_scene :: "bool \<Rightarrow> Server \<Rightarrow> response \<times> Server" where
  "clear_scene fs_ok s =
     (let s1 = s\<lparr> sceneState := \<lparr> objects = Map.empty, connections = [] \<rparr> \<rparr>;
          s2 = s1\<lparr> idCounter := 1 \<rparr>
      in (Cleared, commitState fs_ok s2))"

text \<open>
  The snapshot \<open>execute_code\<close> pulls out of the interpreter:
  \<open>{ objects: scene?.objects ?? {}, connections: scene?.connections ?? [] }\<close>, and then
  \<open>objects: snapshot.objects ?? {}\<close> and
  \<open>connections: Array.isArray(snapshot.connections) ? snapshot.connections : []\<close>.
\<close>

definition snapshot_objects :: "scene_value \<Rightarrow> (string \<rightharpoonup> entry)" where
  "snapshot_objects v =
     (case v of
        SceneNullish \<Rightarrow> Map.empty
      | Scene ObjectsNullish c \<Rightarrow> Map.empty
      | Scene (ObjectsMap m) c \<Rightarrow> m)"

definition snapshot_connections :: "scene_value \<Rightarrow> Connection list" where
  "snapshot_connections v =
     (case v of
        SceneNullish \<Rightarrow> []
      | Scene ob ConnectionsNullish \<Rightarrow> []
      | Scene ob (ConnectionsArray cs) \<Rightarrow> cs
      | Scene ob ConnectionsNotArray \<Rightarrow> [])"

text \<open>
  \<open>execute_code\<close>: both runs and the parsing are inside the \<open>try\<close>, so an exception of
  any of them is caught and answered with its message, before \<open>sceneState\<close> is assigned.
\<close>

definition execute_code :: "snapshot_result vm \<Rightarrow> bool \<Rightarrow> string \<Rightarrow> Server \<Rightarrow> response \<times> Server" where
  "execute_code run fs_ok code s =
     (case run code (sceneState s) of
        Threw \<Rightarrow> (Failure SandboxExecutionError, s)
      | TimedOut \<Rightarrow> (Failure SandboxExecutionError, s)
      | Finished SnapshotThrew \<Rightarrow> (Failure SandboxExecutionError, s)
      | Finished SnapshotTimedOut \<Rightarrow> (Failure SandboxExecutionError, s)
      | Finished (Snapshot v) \<Rightarrow>
          let s1 = s\<lparr> sceneState := \<lparr> objects = snapshot_objects v,
                                      connections = snapshot_connections v \<rparr> \<rparr>;
              s2 = commitState fs_ok s1
          in (Executed (card (dom (objects (sceneState s2))))
                       (length (connections (sceneState s2))), s2))"

subsection \<open>The guarded \<open>execute_code\<close> of the first variant\<close>

text \<open>
  The first variant has no version counter and no state file; its \<open>execute_code\<close> works on
  the scene alone. \<open>env\<close> is the value of \<open>process.env.ENABLE_EXECUTE_CODE\<close>. After the
  run it reads \<open>ctx.scene.objects ?? sceneState.objects\<close> and
  \<open>ctx.scene.connections ?? sceneState.connections\<close>: a nullish \<open>scene\<close> (or a getter
  that throws) makes the read throw inside the \<open>try\<close>. A \<open>connections\<close> value that is
  not an array is stored as it is; the scene is then no \<open>SceneState\<close>, and the function
  returns \<open>None\<close> for it.
\<close>

definition execute_code_gated :: "string option \<Rightarrow> read_result vm \<Rightarrow> string \<Rightarrow> SceneState \<Rightarrow> response \<times> SceneState option" where
  "execute_code_gated env run code g =
     (if env \<noteq> Some ''true''
      then (Failure SandboxDisabled, Some g)
      else
        case run code g of
          Threw \<Rightarrow> (Failure SandboxExecutionError, Some g)
        | TimedOut \<Rightarrow> (Failure SandboxExecutionError, Some g)
        | Finished ReadThrew \<Rightarrow> (Failure SandboxExecutionError, Some g)
        | Finished (Read SceneNullish) \<Rightarrow> (Failure SandboxExecutionError, Some g)
        | Finished (Read (Scene ob cs)) \<Rightarrow>
            (let objs = (case ob of ObjectsNullish \<Rightarrow> objects g | ObjectsMap m \<Rightarrow> m) in
             case cs of
               ConnectionsNullish \<Rightarrow>
                 (CodeExecuted, Some \<lparr> objects = objs, connections = connections g \<rparr>)
             | ConnectionsArray l \<Rightarrow>
                 (CodeExecuted, Some \<lparr> objects = objs, connections = l \<rparr>)
             | ConnectionsNotArray \<Rightarrow> (CodeExecuted, None)))"

subsection \<open>The tools as one step function\<close>

datatype op =
    GetSceneState
  | AddObject kind AddParams
  | UpdateObject string UpdateParams
  | DeleteObject string
  | Connect string Face string Face
  | ClearScene
  | ExecuteCode string

fun step :: "snapshot_result vm \<Rightarrow> bool \<Rightarrow> op \<Rightarrow> Server \<Rightarrow> response \<times> Server" where
  "step run fs_ok GetSceneState s = get_scene_state s"
| "step run fs_ok (AddObject ty params) s = add_object fs_ok ty params s"
| "step run fs_ok (UpdateObject ident params) s = update_object fs_ok ident params s"
| "step run fs_ok (DeleteObject ident) s = delete_object fs_ok ident s"
| "step run fs_ok (Connect fromId faceA toId faceB) s = connect fs_ok fromId faceA toId faceB s"
| "step run fs_ok ClearScene s = clear_scene fs_ok s"
| "step run fs_ok (ExecuteCode code) s = execute_code run fs_ok code s"

text \<open>A sequence of tool calls, each with the outcome of its file write.\<close>

fun run_ops :: "snapshot_result vm \<Rightarrow> (bool \<times> op) list \<Rightarrow> Server \<Rightarrow> Server" where
  "run_ops run [] s = s"
| "run_ops run ((fs_ok, c) # cs) s = run_ops run cs (snd (step run fs_ok c s))"

section \<open>Vocabulary of the properties\<close>

text \<open>The tag of an object, and the value of each dimension field its tag declares.\<close>

fun kind_of :: "geometry \<Rightarrow> kind" where
  "kind_of (Box w h d) = box"
| "kind_of (Sphere r) = sphere"
| "kind_of (Cylinder r h) = cylinder"
| "kind_of (Cone r h) = cone"
| "kind_of (Plane w d) = plane"

fun width_of :: "geometry \<Rightarrow> real option" where
  "width_of (Box w h d) = Some w"
| "width_of (Plane w d) = Some w"
| "width_of g = None"

fun height_of :: "geometry \<Rightarrow> real option" where
  "height_of (Box w h d) = Some h"
| "height_of (Cylinder r h) = Some h"
| "height_of (Cone r h) = Some h"
| "height_of g = None"

fun depth_of :: "geometry \<Rightarrow> real option" where
  "depth_of (Box w h d) = Some d"
| "depth_of (Plane w d) = Some d"
| "depth_of g = None"

fun radius_of :: "geometry \<Rightarrow> real option" where
  "radius_of (Sphere r) = Some r"
| "radius_of (Cylinder r h) = Some r"
| "radius_of (Cone r h) = Some r"
| "radius_of g = None"

text \<open>
  A dimension after \<open>update_object\<close>: a field the object declares takes the payload's
  value when the payload has one; a field it does not declare stays absent.
\<close>

definition updated_dim :: "real option \<Rightarrow> real option \<Rightarrow> real option" where
  "updated_dim payload old =
     (case old of None \<Rightarrow> None | Some v \<Rightarrow> Some (orDefault payload v))"

text \<open>Invariant 2 of the data model: every connection names keys of the table.\<close>

definition ref_integrity :: "SceneState \<Rightarrow> bool" where
  "ref_integrity g =
     list_all (\<lambda>c. objects g (from_id c) \<noteq> None \<and> objects g (to_id c) \<noteq> None)
       (connections g)"

text \<open>The snapshot the server gets from the interpreter, when both runs finished.\<close>

fun snapshot_of :: "snapshot_result vm_result \<Rightarrow> scene_value option" where
  "snapshot_of (Finished (Snapshot v)) = Some v"
| "snapshot_of r = None"

fun is_execute :: "op \<Rightarrow> bool" where
  "is_execute (ExecuteCode code) = True"
| "is_execute c = False"

text \<open>Invariant 3 of the data model, on an object and on the input of \<open>add_object\<close>.\<close>

definition positive_dims :: "SceneObject \<Rightarrow> bool" where
  "positive_dims ob =
     (0 < x (scale ob) \<and> 0 < y (scale ob) \<and> 0 < z (scale ob) \<and>
      (case geom ob of
         Box w h d \<Rightarrow> 0 < w \<and> 0 < h \<and> 0 < d
       | Sphere r \<Rightarrow> 0 < r
       | Cylinder r h \<Rightarrow> 0 < r \<and> 0 < h
       | Cone r h \<Rightarrow> 0 < r \<and> 0 < h
       | Plane w d \<Rightarrow> 0 < w \<and> 0 < d))"

definition positive_or_absent :: "real option \<Rightarrow> bool" where
  "positive_or_absent v = (case v of None \<Rightarrow> True | Some a \<Rightarrow> 0 < a)"

definition supplied_positive :: "AddParams \<Rightarrow> bool" where
  "supplied_positive params =
     ((case a_scale params of None \<Rightarrow> True | Some v \<Rightarrow> 0 < x v \<and> 0 < y v \<and> 0 < z v) \<and>
      positive_or_absent (a_width params) \<and> positive_or_absent (a_height params) \<and>
      positive_or_absent (a_depth params) \<and> positive_or_absent (a_radius params))"

text \<open>
  The two outcomes a tool can have: an error answer with the server as it was, or an
  answer that is no error with one commit on a state of the old version and old file.
\<close>

definition fails_or_commits :: "bool \<Rightarrow> Server \<Rightarrow> response \<times> Server \<Rightarrow> bool" where
  "fails_or_commits fs_ok s r =
     ((\<exists>e. r = (Failure e, s)) \<or>
      (succeeded (fst r) \<and>
       (\<exists>s1. snd r = commitState fs_ok s1 \<and> sceneVersion s1 = sceneVersion s \<and>
             disk s1 = disk s)))"

subsection \<open>Inputs of the examples\<close>

definition example_box :: SceneObject where
  "example_box = \<lparr> obj_id = ''obj_1'', name = ''a'', position = \<lparr> x = 0, y = 0, z = 0 \<rparr>,
                   scale = \<lparr> x = 1, y = 1, z = 1 \<rparr>, color = ''#888888'',
                   geom = Box 100 100 100 \<rparr>"

text \<open>A server holding \<open>example_box\<close> alone, after one commit.\<close>

definition example_server :: Server where
  "example_server =
     \<lparr> sceneState = \<lparr> objects = [''obj_1'' \<mapsto> Obj example_box], connections = [] \<rparr>,
       idCounter = 2, sceneVersion = 1, disk = None \<rparr>"

definition plain_box :: AddParams where
  "plain_box = \<lparr> a_name = ''a'', a_position = None, a_scale = None, a_color = None,
     a_width = None, a_height = None, a_depth = None, a_radius = None \<rparr>"

definition base_box :: AddParams where
  "base_box = \<lparr> a_name = ''base'', a_position = None, a_scale = None,
     a_color = Some ''#cc0000'', a_width = Some 200, a_height = Some 20,
     a_depth = Some 100, a_radius = None \<rparr>"

definition post_cylinder :: AddParams where
  "post_cylinder = \<lparr> a_name = ''post'', a_position = None, a_scale = None,
     a_color = Some ''#ffffff'', a_width = None, a_height = Some 100,
     a_depth = None, a_radius = Some 10 \<rparr>"

definition nonpositive_box :: AddParams where
  "nonpositive_box = \<lparr> a_name = ''flat'', a_position = None,
     a_scale = Some \<lparr> x = 0, y = 1, z = 1 \<rparr>, a_color = None,
     a_width = Some (- 5), a_height = None, a_depth = None, a_radius = None \<rparr>"

definition empty_color_box :: AddParams where
  "empty_color_box = \<lparr> a_name = ''a'', a_position = None, a_scale = None, a_color = Some [],
     a_width = None, a_height = None, a_depth = None, a_radius = None \<rparr>"

definition only_radius :: "real \<Rightarrow> UpdateParams" where
  "only_radius r = \<lparr> u_name = None, u_position = None, u_scale = None, u_color = None,
     u_width = None, u_height = None, u_depth = None, u_radius = Some r \<rparr>"

definition only_color :: "string \<Rightarrow> UpdateParams" where
  "only_color c = \<lparr> u_name = None, u_position = None, u_scale = None, u_color = Some c,
     u_width = None, u_height = None, u_depth = None, u_radius = None \<rparr>"

text \<open>
  Scripts for the examples, and what the interpreter does on each. \<open>throw new Error()\<close>
  throws. \<open>scene = null\<close> finishes and leaves a nullish \<open>scene\<close>. \<open>delete scene\<close>
  finishes and removes the binding, so the snapshot run throws. The next script leaves an
  empty table and the number 5. The last one pushes, onto the connections of the copy it
  was given, a connection from \<open>obj_1\<close> to \<open>obj_2\<close> and leaves the objects as they were.
\<close>

definition throwing_script :: "snapshot_result vm" where
  "throwing_script code g = Threw"

definition wipe_script :: "snapshot_result vm" where
  "wipe_script code g = Finished (Snapshot SceneNullish)"

definition unbind_script :: "snapshot_result vm" where
  "unbind_script code g = Finished SnapshotThrew"

definition not_a_list_script :: "snapshot_result vm" where
  "not_a_list_script code g =
     Finished (Snapshot (Scene (ObjectsMap Map.empty) ConnectionsNotArray))"

definition push_code :: string where
  "push_code =
     ''scene.connections.push({from_id: `obj_1`, face_a: `top`, to_id: `obj_2`, face_b: `bottom`})''"

definition push_script :: "snapshot_result vm" where
  "push_script code g =
     Finished (Snapshot (Scene (ObjectsMap (objects g))
       (ConnectionsArray (connections g @
          [\<lparr> from_id = ''obj_1'', face_a = FTop, to_id = ''obj_2'', face_b = FBottom \<rparr>]))))"

text \<open>The script \<open>scene = null\<close> as the first variant sees it.\<close>

definition wipe_script_read :: "read_result vm" where
  "wipe_script_read code g = Finished (Read SceneNullish)"

section \<open>Auxiliary facts\<close>

subsection \<open>Decimal numerals\<close>

lemma dec_one: "dec (Suc 0) = ''1''"
  by code_simp

lemma dec_two: "dec (Suc (Suc 0)) = ''2''"
  by code_simp

lemma dec_small: "n < 10 \<Longrightarrow> dec n = [char_of (48 + n)]"
  by (subst dec.simps) simp

lemma dec_large: "\<not> n < 10 \<Longrightarrow> dec n = dec (n div 10) @ [char_of (48 + n mod 10)]"
  by (subst dec.simps) simp

lemma dec_not_Nil: "dec n \<noteq> []"
  by (subst dec.simps) simp

lemma digit_char_inj:
  assumes "char_of (48 + a) = char_of (48 + b)" and "a < 10" and "b < 10"
  shows "a = (b::nat)"
proof -
  have "of_char (char_of (48 + a)) = (of_char (char_of (48 + b)) :: nat)"
    using assms(1) by simp
  then have "(48 + a) mod 256 = (48 + b) mod 256"
    by (simp only: of_char_of)
  moreover have "(48 + a) mod 256 = 48 + a" "(48 + b) mod 256 = 48 + b"
    using assms(2,3) by (simp_all only: mod_less)
  ultimately show ?thesis by arith
qed

text \<open>Different counters print as different numerals.\<close>

lemma dec_inj: "dec m = dec n \<Longrightarrow> m = n"
proof (induction m arbitrary: n rule: dec.induct)
  case (1 m)
  show ?case
  proof (cases "m < 10")
    case True
    note m = this
    show ?thesis
    proof (cases "n < 10")
      case True
      from "1.prems" [unfolded dec_small [OF m] dec_small [OF True]]
      have "char_of (48 + m) = char_of (48 + n)" by simp
      then show ?thesis using m True by (rule digit_char_inj)
    next
      case False
      from "1.prems" [unfolded dec_small [OF m] dec_large [OF False]]
      have "dec (n div 10) = []" by simp
      then show ?thesis by (simp only: dec_not_Nil)
    qed
  next
    case False
    note m = this
    show ?thesis
    proof (cases "n < 10")
      case True
      from "1.prems" [unfolded dec_large [OF m] dec_small [OF True]]
      have "dec (m div 10) = []" by simp
      then show ?thesis by (simp only: dec_not_Nil)
    next
      case False
      from "1.prems" [unfolded dec_large [OF m] dec_large [OF False]]
      have a: "dec (m div 10) = dec (n div 10)"
        and b: "char_of (48 + m mod 10) = char_of (48 + n mod 10)"
        by simp_all
      from "1.IH" [OF m a] have "m div 10 = n div 10" .
      moreover from b have "m mod 10 = n mod 10"
        by (rule digit_char_inj) simp_all
      ultimately show ?thesis
        by (metis div_mult_mod_eq)
    qed
  qed
qed

subsection \<open>What a commit changes\<close>

lemma sceneState_commitState [simp]: "sceneState (commitState fs_ok s) = sceneState s"
  by (simp add: commitState_def persistState_def)

lemma idCounter_commitState [simp]: "idCounter (commitState fs_ok s) = idCounter s"
  by (simp add: commitState_def persistState_def)

lemma sceneVersion_commitState [simp]:
  "sceneVersion (commitState fs_ok s) = sceneVersion s + 1"
  by (simp add: commitState_def persistState_def)

lemma disk_commitState:
  "disk (commitState fs_ok s1) =
     (if fs_ok then Some \<lparr> p_sceneState = sceneState s1, p_idCounter = idCounter s1,
                           p_sceneVersion = sceneVersion s1 + 1 \<rparr>
      else disk s1)"
  by (simp add: commitState_def persistState_def)

subsection \<open>The tools, branch by branch\<close>

lemma assertObject_own: "objects g ident = Some e \<Longrightarrow> assertObject g ident = Inr (Own e)"
  by (simp add: assertObject_def)

lemma assertObject_absent:
  "objects g ident = None \<Longrightarrow> \<not> inherited ident \<Longrightarrow> assertObject g ident = Inl (NotFound ident)"
  by (simp add: assertObject_def)

lemma add_object_rejected:
  "colorRejected (a_color params) \<Longrightarrow>
   add_object fs_ok ty params s = (Failure (InvalidColor (the (a_color params))), s)"
  by (simp add: add_object_def)

lemma add_object_accepted:
  "\<not> colorRejected (a_color params) \<Longrightarrow>
   add_object fs_ok ty params s =
     (ObjectId (''obj_'' @ dec (idCounter s)),
      commitState fs_ok (s\<lparr> idCounter := idCounter s + 1,
        sceneState := (sceneState s)\<lparr> objects := (objects (sceneState s))
          (''obj_'' @ dec (idCounter s) \<mapsto> Obj
             \<lparr> obj_id = ''obj_'' @ dec (idCounter s), name = a_name params,
               position = orDefault (a_position params) \<lparr> x = 0, y = 0, z = 0 \<rparr>,
               scale = orDefault (a_scale params) \<lparr> x = 1, y = 1, z = 1 \<rparr>,
               color = orDefault (a_color params) ''#888888'',
               geom = (case ty of
                   box \<Rightarrow> Box (orDefault (a_width params) 100)
                              (orDefault (a_height params) 100)
                              (orDefault (a_depth params) 100)
                 | sphere \<Rightarrow> Sphere (orDefault (a_radius params) 50)
                 | cylinder \<Rightarrow> Cylinder (orDefault (a_radius params) 25)
                                        (orDefault (a_height params) 100)
                 | cone \<Rightarrow> Cone (orDefault (a_radius params) 25)
                                (orDefault (a_height params) 100)
                 | plane \<Rightarrow> Plane (orDefault (a_width params) 200)
                                  (orDefault (a_depth params) 200)) \<rparr>) \<rparr> \<rparr>))"
  by (simp add: add_object_def nextId_def Let_def)

lemma add_object_result:
  "fst (add_object fs_ok ty params s) = ObjectId i \<Longrightarrow>
   i = ''obj_'' @ dec (idCounter s) \<and>
   idCounter (snd (add_object fs_ok ty params s)) = idCounter s + 1"
  by (cases "colorRejected (a_color params)")
     (simp_all add: add_object_rejected add_object_accepted)

lemma update_object_accepted:
  "objects (sceneState s) ident = Some (Obj ob) \<Longrightarrow> \<not> colorRejected (u_color params) \<Longrightarrow>
   update_object fs_ok ident params s =
     (ObjectId ident,
      commitState fs_ok (s\<lparr> sceneState := (sceneState s)\<lparr> objects := (objects (sceneState s))
        (ident \<mapsto> Obj (ob\<lparr> name := orDefault (u_name params) (name ob),
                            position := orDefault (u_position params) (position ob),
                            scale := orDefault (u_scale params) (scale ob),
                            color := orDefault (u_color params) (color ob),
                            geom := set_radius (u_radius params) (set_depth (u_depth params)
                                      (set_height (u_height params)
                                         (set_width (u_width params) (geom ob)))) \<rparr>)) \<rparr> \<rparr>))"
  by (simp add: update_object_def assertObject_own Let_def)

lemma delete_object_found:
  "assertObject (sceneState s) ident = Inr v \<Longrightarrow>
   delete_object fs_ok ident s =
     (Deleted ident,
      commitState fs_ok (s\<lparr> sceneState :=
         \<lparr> objects = (objects (sceneState s))(ident := None),
           connections = filter (\<lambda>c. from_id c \<noteq> ident \<and> to_id c \<noteq> ident)
                           (connections (sceneState s)) \<rparr> \<rparr>))"
  by (simp add: delete_object_def Let_def)

lemma delete_object_failed:
  "assertObject (sceneState s) ident = Inl e \<Longrightarrow> delete_object fs_ok ident s = (Failure e, s)"
  by (simp add: delete_object_def)

lemma connect_present:
  fixes s :: Server
  assumes "objects (sceneState s) fromId = Some (Obj f)"
    and "objects (sceneState s) toId = Some (Obj t)"
  shows "connect fs_ok fromId faceA toId faceB s =
     (Connected fromId (computeConnectPos f faceA t faceB),
      commitState fs_ok (s\<lparr> sceneState :=
         \<lparr> objects = (objects (sceneState s))
             (fromId \<mapsto> Obj (f\<lparr> position := computeConnectPos f faceA t faceB \<rparr>)),
           connections = connections (sceneState s) @
             [\<lparr> from_id = fromId, face_a = faceA, to_id = toId, face_b = faceB \<rparr>] \<rparr> \<rparr>))"
  using assms by (simp add: connect_def assertObject_own Let_def)

lemma execute_code_failed:
  "snapshot_of (run code (sceneState s)) = None \<Longrightarrow>
   execute_code run fs_ok code s = (Failure SandboxExecutionError, s)"
  by (cases "run code (sceneState s)" rule: snapshot_of.cases)
     (simp_all add: execute_code_def)

lemma execute_code_finished:
  "snapshot_of (run code (sceneState s)) = Some v \<Longrightarrow>
   execute_code run fs_ok code s =
     (Executed (card (dom (snapshot_objects v))) (length (snapshot_connections v)),
      commitState fs_ok (s\<lparr> sceneState := \<lparr> objects = snapshot_objects v,
                                             connections = snapshot_connections v \<rparr> \<rparr>))"
  by (cases "run code (sceneState s)" rule: snapshot_of.cases)
     (simp_all add: execute_code_def Let_def)

lemma execute_code_sceneState:
  "sceneState (snd (execute_code run fs_ok code s)) =
     (case snapshot_of (run code (sceneState s)) of
        Some v \<Rightarrow> \<lparr> objects = snapshot_objects v, connections = snapshot_connections v \<rparr>
      | None \<Rightarrow> sceneState s)"
  by (cases "snapshot_of (run code (sceneState s))")
     (simp_all add: execute_code_failed execute_code_finished)

subsection \<open>Dimension fields under the updates\<close>

lemma kind_of_set [simp]:
  "kind_of (set_width a g) = kind_of g" "kind_of (set_height a g) = kind_of g"
  "kind_of (set_depth a g) = kind_of g" "kind_of (set_radius a g) = kind_of g"
  by (cases a; cases g; simp)+

lemma width_of_set [simp]:
  "width_of (set_width a g) = updated_dim a (width_of g)"
  "width_of (set_height b g) = width_of g"
  "width_of (set_depth b g) = width_of g"
  "width_of (set_radius b g) = width_of g"
  by (cases a; cases b; cases g; simp add: updated_dim_def orDefault_def)+

lemma height_of_set [simp]:
  "height_of (set_height a g) = updated_dim a (height_of g)"
  "height_of (set_width b g) = height_of g"
  "height_of (set_depth b g) = height_of g"
  "height_of (set_radius b g) = height_of g"
  by (cases a; cases b; cases g; simp add: updated_dim_def orDefault_def)+

lemma depth_of_set [simp]:
  "depth_of (set_depth a g) = updated_dim a (depth_of g)"
  "depth_of (set_width b g) = depth_of g"
  "depth_of (set_height b g) = depth_of g"
  "depth_of (set_radius b g) = depth_of g"
  by (cases a; cases b; cases g; simp add: updated_dim_def orDefault_def)+

lemma radius_of_set [simp]:
  "radius_of (set_radius a g) = updated_dim a (radius_of g)"
  "radius_of (set_width b g) = radius_of g"
  "radius_of (set_height b g) = radius_of g"
  "radius_of (set_depth b g) = radius_of g"
  by (cases a; cases b; cases g; simp add: updated_dim_def orDefault_def)+

lemma dim_case:
  "(case (old, payload) of (Some w, Some v) \<Rightarrow> Some v | (old', _) \<Rightarrow> old')
     = updated_dim payload old"
  by (cases old; cases payload; simp add: updated_dim_def orDefault_def)

lemma radius_on_box: "kind_of g = box \<Longrightarrow> set_radius a g = g"
  by (cases g; cases a; simp)

subsection \<open>Every tool fails or commits once\<close>

lemma fails_or_commits_add: "fails_or_commits fs_ok s (add_object fs_ok ty params s)"
  unfolding fails_or_commits_def add_object_def nextId_def Let_def
  by (auto intro!: exI)

lemma fails_or_commits_update: "fails_or_commits fs_ok s (update_object fs_ok ident params s)"
  unfolding fails_or_commits_def update_object_def Let_def
  by (auto intro!: exI split: sum.splits)

lemma fails_or_commits_delete: "fails_or_commits fs_ok s (delete_object fs_ok ident s)"
  unfolding fails_or_commits_def delete_object_def Let_def
  by (auto intro!: exI split: sum.splits)

lemma fails_or_commits_connect:
  "fails_or_commits fs_ok s (connect fs_ok fromId faceA toId faceB s)"
  unfolding fails_or_commits_def connect_def Let_def
  by (auto intro!: exI split: sum.splits found.splits entry.splits)

lemma fails_or_commits_clear: "fails_or_commits fs_ok s (clear_scene fs_ok s)"
  unfolding fails_or_commits_def clear_scene_def Let_def
  by (auto intro!: exI)

lemma fails_or_commits_execute: "fails_or_commits fs_ok s (execute_code run fs_ok code s)"
  unfolding fails_or_commits_def
  by (cases "snapshot_of (run code (sceneState s))")
     (auto simp add: execute_code_failed execute_code_finished intro!: exI)

lemma fails_or_commits_version:
  assumes "fails_or_commits fs_ok s r"
  shows "if succeeded (fst r)
     then sceneVersion (snd r) = sceneVersion s + 1 \<and>
          (\<exists>s1. snd r = commitState fs_ok s1 \<and> sceneVersion s1 = sceneVersion s \<and>
                disk s1 = disk s) \<and>
          (if fs_ok
           then disk (snd r) = Some \<lparr> p_sceneState = sceneState (snd r),
                                       p_idCounter = idCounter (snd r),
                                       p_sceneVersion = sceneVersion s + 1 \<rparr>
           else disk (snd r) = disk s)
     else snd r = s"
  using assms unfolding fails_or_commits_def
  by (auto simp add: disk_commitState)

subsection \<open>Referential integrity, tool by tool\<close>

lemma ref_integrity_add:
  "ref_integrity (sceneState s) \<Longrightarrow>
   ref_integrity (sceneState (snd (add_object fs_ok ty params s)))"
  by (auto simp add: ref_integrity_def add_object_def nextId_def Let_def list_all_iff)

lemma ref_integrity_update:
  "ref_integrity (sceneState s) \<Longrightarrow>
   ref_integrity (sceneState (snd (update_object fs_ok ident params s)))"
  by (auto simp add: ref_integrity_def update_object_def Let_def list_all_iff
      split: sum.splits)

lemma ref_integrity_delete:
  "ref_integrity (sceneState s) \<Longrightarrow>
   ref_integrity (sceneState (snd (delete_object fs_ok ident s)))"
  by (cases "assertObject (sceneState s) ident")
     (auto simp add: ref_integrity_def delete_object_found delete_object_failed list_all_iff)

lemma ref_integrity_connect:
  "ref_integrity (sceneState s) \<Longrightarrow>
   ref_integrity (sceneState (snd (connect fs_ok fromId faceA toId faceB s)))"
  by (auto simp add: ref_integrity_def connect_def assertObject_def Let_def list_all_iff
      split: option.splits if_splits entry.splits)

lemma ref_integrity_clear: "ref_integrity (sceneState (snd (clear_scene fs_ok s)))"
  by (simp add: ref_integrity_def clear_scene_def Let_def)

subsection \<open>The identifier counter along a run\<close>

lemma execute_code_idCounter: "idCounter (snd (execute_code run fs_ok code s)) = idCounter s"
  by (cases "snapshot_of (run code (sceneState s))")
     (simp_all add: execute_code_failed execute_code_finished)

lemma step_idCounter:
  "c \<noteq> ClearScene \<Longrightarrow> idCounter s \<le> idCounter (snd (step run fs_ok c s))"
  by (cases c)
     (auto simp add: get_scene_state_def add_object_def nextId_def update_object_def
       delete_object_def connect_def execute_code_idCounter Let_def
       split: sum.splits found.splits entry.splits)

lemma run_ops_idCounter:
  "list_all (\<lambda>(fs_ok, c). c \<noteq> ClearScene) cs \<Longrightarrow>
   idCounter s \<le> idCounter (run_ops run cs s)"
proof (induction cs arbitrary: s)
  case Nil
  then show ?case by simp
next
  case (Cons a cs)
  obtain fs_ok c where a: "a = (fs_ok, c)" by (cases a)
  from Cons.prems a have c: "c \<noteq> ClearScene"
    and cs: "list_all (\<lambda>(fs_ok, c). c \<noteq> ClearScene) cs"
    by simp_all
  have "idCounter s \<le> idCounter (snd (step run fs_ok c s))"
    using c by (rule step_idCounter)
  also have "\<dots> \<le> idCounter (run_ops run cs (snd (step run fs_ok c s)))"
    using cs by (rule Cons.IH)
  finally show ?case by (simp add: a)
qed

lemma connect_scenario:
  "(let s1 = snd (add_object True box base_box init);
        s2 = snd (add_object True cylinder post_cylinder s1);
        r = connect True ''obj_2'' FBottom ''obj_1'' FTop s2
    in fst (add_object True box base_box init) = ObjectId ''obj_1'' \<and>
       fst (add_object True cylinder post_cylinder s1) = ObjectId ''obj_2'' \<and>
       fst r = Connected ''obj_2'' \<lparr> x = 0, y = 60, z = 0 \<rparr> \<and>
       (\<exists>ob. objects (sceneState (snd r)) ''obj_2'' = Some (Obj ob) \<and>
             position ob = \<lparr> x = 0, y = 60, z = 0 \<rparr>))"
  by (simp add: add_object_def colorRejected_def isHexColor_def isHexDigit_def nextId_def
      init_def base_box_def post_cylinder_def orDefault_def dec_one dec_two connect_def
      assertObject_def computeConnectPos_def faceOffset_def getHalfExtents_def Let_def)

section \<open>The claims\<close>

subsection \<open>Connecting two objects\<close>

text \<open>
  Claim C1. When both identifiers name objects of the graph (they may be the same
  object), \<open>connect\<close> succeeds, and the position it returns and stores for the \<open>from\<close>
  object is, in each component, the position of the \<open>to\<close> object plus the offset of
  \<open>face_b\<close> on the \<open>to\<close> object minus the offset of \<open>face_a\<close> on the \<open>from\<close> object.
  Nothing else of the \<open>from\<close> object changes, no other entry of the table changes, and
  exactly one connection record is appended. In the scenario of the specification (a box
  of width 200, height 20 and depth 100 at the origin, a cylinder of radius 10 and height
  100, unit scales, the cylinder's bottom connected to the box's top) the cylinder ends at
  \<open>(0, 60, 0)\<close>.
\<close>

theorem connect_sets_position:
  "(\<forall>(s::Server) fromId toId f t faceA faceB fs_ok.
      objects (sceneState s) fromId = Some (Obj f) \<and>
      objects (sceneState s) toId = Some (Obj t) \<longrightarrow>
      (let p = \<lparr> x = x (position t) + x (faceOffset t faceB) - x (faceOffset f faceA),
                  y = y (position t) + y (faceOffset t faceB) - y (faceOffset f faceA),
                  z = z (position t) + z (faceOffset t faceB) - z (faceOffset f faceA) \<rparr>;
           r = connect fs_ok fromId faceA toId faceB s
       in fst r = Connected fromId p \<and>
          objects (sceneState (snd r)) fromId = Some (Obj (f\<lparr> position := p \<rparr>)) \<and>
          (\<forall>k. k \<noteq> fromId \<longrightarrow> objects (sceneState (snd r)) k = objects (sceneState s) k) \<and>
          connections (sceneState (snd r)) =
            connections (sceneState s) @
              [\<lparr> from_id = fromId, face_a = faceA, to_id = toId, face_b = faceB \<rparr>])) \<and>
   (let s1 = snd (add_object True box base_box init);
        s2 = snd (add_object True cylinder post_cylinder s1);
        r = connect True ''obj_2'' FBottom ''obj_1'' FTop s2
    in fst (add_object True box base_box init) = ObjectId ''obj_1'' \<and>
       fst (add_object True cylinder post_cylinder s1) = ObjectId ''obj_2'' \<and>
       fst r = Connected ''obj_2'' \<lparr> x = 0, y = 60, z = 0 \<rparr> \<and>
       (\<exists>ob. objects (sceneState (snd r)) ''obj_2'' = Some (Obj ob) \<and>
             position ob = \<lparr> x = 0, y = 60, z = 0 \<rparr>))"
proof (rule conjI)
  show "\<forall>(s::Server) fromId toId f t faceA faceB fs_ok.
      objects (sceneState s) fromId = Some (Obj f) \<and>
      objects (sceneState s) toId = Some (Obj t) \<longrightarrow>
      (let p = \<lparr> x = x (position t) + x (faceOffset t faceB) - x (faceOffset f faceA),
                  y = y (position t) + y (faceOffset t faceB) - y (faceOffset f faceA),
                  z = z (position t) + z (faceOffset t faceB) - z (faceOffset f faceA) \<rparr>;
           r = connect fs_ok fromId faceA toId faceB s
       in fst r = Connected fromId p \<and>
          objects (sceneState (snd r)) fromId = Some (Obj (f\<lparr> position := p \<rparr>)) \<and>
          (\<forall>k. k \<noteq> fromId \<longrightarrow> objects (sceneState (snd r)) k = objects (sceneState s) k) \<and>
          connections (sceneState (snd r)) =
            connections (sceneState s) @
              [\<lparr> from_id = fromId, face_a = faceA, to_id = toId, face_b = faceB \<rparr>])"
    by (intro allI impI, erule conjE)
       (simp add: connect_present computeConnectPos_def Let_def)
qed (rule connect_scenario)

text \<open>
  The theorem at a self-connection: a default box at the origin, its top connected to its
  own bottom, moves to \<open>(0, -100, 0)\<close>.
\<close>

theorem connect_sets_position_witness:
  "objects (sceneState example_server) ''obj_1'' = Some (Obj example_box) \<and>
   fst (connect True ''obj_1'' FTop ''obj_1'' FBottom example_server)
     = Connected ''obj_1'' \<lparr> x = 0, y = - 100, z = 0 \<rparr> \<and>
   connections (sceneState (snd (connect True ''obj_1'' FTop ''obj_1'' FBottom example_server)))
     = [\<lparr> from_id = ''obj_1'', face_a = FTop, to_id = ''obj_1'', face_b = FBottom \<rparr>]"
proof -
  have a: "objects (sceneState example_server) ''obj_1'' = Some (Obj example_box)"
    by (simp add: example_server_def)
  have b: "connections (sceneState example_server) = []"
    by (simp add: example_server_def)
  from connect_sets_position [THEN conjunct1, rule_format, OF conjI, OF a a,
      where fs_ok = True and faceA = FTop and faceB = FBottom] a b
  show ?thesis
    by (simp add: Let_def faceOffset_def getHalfExtents_def example_box_def)
qed

subsection \<open>The gate of \<open>execute_code\<close>\<close>

text \<open>
  Claim C2, as amended. In the first variant of the server, whenever
  \<open>ENABLE_EXECUTE_CODE\<close> is not the string \<open>true\<close>, \<open>execute_code\<close> answers with the
  disabled error for every script and every interpreter, before any run, and leaves the
  scene as it was. The persistence variant has no such gate: for every script its
  \<open>execute_code\<close> hands the script to the interpreter and lets the interpreter decide.
  The call succeeds exactly when the script's run and the snapshot run both finish, the
  graph is then the snapshot the interpreter gave, the counts in the answer are those of
  that snapshot, and otherwise the graph is as it was. It never answers with the disabled
  error.
\<close>

theorem execute_code_gate_in_first_variant_only:
  fixes s :: Server
  shows "(env \<noteq> Some ''true'' \<longrightarrow>
      execute_code_gated env read code g = (Failure SandboxDisabled, Some g)) \<and>
   succeeded (fst (execute_code run fs_ok code s))
     = (snapshot_of (run code (sceneState s)) \<noteq> None) \<and>
   sceneState (snd (execute_code run fs_ok code s)) =
     (case snapshot_of (run code (sceneState s)) of
        Some v \<Rightarrow> \<lparr> objects = snapshot_objects v, connections = snapshot_connections v \<rparr>
      | None \<Rightarrow> sceneState s) \<and>
   fst (execute_code run fs_ok code s) =
     (case snapshot_of (run code (sceneState s)) of
        Some v \<Rightarrow> Executed (card (dom (snapshot_objects v))) (length (snapshot_connections v))
      | None \<Rightarrow> Failure SandboxExecutionError) \<and>
   fst (execute_code run fs_ok code s) \<noteq> Failure SandboxDisabled"
proof (intro conjI impI)
  assume "env \<noteq> Some ''true''"
  then show "execute_code_gated env read code g = (Failure SandboxDisabled, Some g)"
    by (simp add: execute_code_gated_def)
next
  show "succeeded (fst (execute_code run fs_ok code s))
      = (snapshot_of (run code (sceneState s)) \<noteq> None)"
    by (cases "snapshot_of (run code (sceneState s))")
       (simp_all add: execute_code_failed execute_code_finished)
next
  show "sceneState (snd (execute_code run fs_ok code s)) =
     (case snapshot_of (run code (sceneState s)) of
        Some v \<Rightarrow> \<lparr> objects = snapshot_objects v, connections = snapshot_connections v \<rparr>
      | None \<Rightarrow> sceneState s)"
    by (rule execute_code_sceneState)
next
  show "fst (execute_code run fs_ok code s) =
     (case snapshot_of (run code (sceneState s)) of
        Some v \<Rightarrow> Executed (card (dom (snapshot_objects v))) (length (snapshot_connections v))
      | None \<Rightarrow> Failure SandboxExecutionError)"
    by (cases "snapshot_of (run code (sceneState s))")
       (simp_all add: execute_code_failed execute_code_finished)
next
  show "fst (execute_code run fs_ok code s) \<noteq> Failure SandboxDisabled"
    by (cases "snapshot_of (run code (sceneState s))")
       (simp_all add: execute_code_failed execute_code_finished)
qed

text \<open>
  The theorem with the variable unset and with the variable set to \<open>1\<close> in the first
  variant, and in the persistence variant at a script that throws and at the script
  \<open>scene = null\<close>.
\<close>

theorem execute_code_gate_in_first_variant_only_witness:
  "execute_code_gated None wipe_script_read ''scene = null'' (sceneState example_server)
     = (Failure SandboxDisabled, Some (sceneState example_server)) \<and>
   execute_code_gated (Some ''1'') wipe_script_read ''scene = null'' (sceneState example_server)
     = (Failure SandboxDisabled, Some (sceneState example_server)) \<and>
   fst (execute_code throwing_script True ''throw new Error()'' example_server)
     = Failure SandboxExecutionError \<and>
   sceneState (snd (execute_code throwing_script True ''throw new Error()'' example_server))
     = sceneState example_server \<and>
   fst (execute_code wipe_script True ''scene = null'' example_server) = Executed 0 0 \<and>
   sceneState (snd (execute_code wipe_script True ''scene = null'' example_server))
     = \<lparr> objects = Map.empty, connections = [] \<rparr>"
proof -
  note g1 = execute_code_gate_in_first_variant_only
      [where env = None and read = wipe_script_read and code = "''scene = null''"
        and g = "sceneState example_server" and run = wipe_script and fs_ok = True
        and s = example_server]
  note g2 = execute_code_gate_in_first_variant_only
      [where env = "Some ''1''" and read = wipe_script_read and code = "''scene = null''"
        and g = "sceneState example_server" and run = wipe_script and fs_ok = True
        and s = example_server]
  note g3 = execute_code_gate_in_first_variant_only
      [where env = None and read = wipe_script_read and code = "''throw new Error()''"
        and g = "sceneState example_server" and run = throwing_script and fs_ok = True
        and s = example_server]
  have t: "snapshot_of (throwing_script ''throw new Error()'' (sceneState example_server)) = None"
    by (simp add: throwing_script_def)
  have w: "snapshot_of (wipe_script ''scene = null'' (sceneState example_server))
      = Some SceneNullish"
    by (simp add: wipe_script_def)
  from g1 g2 g3 t w show ?thesis
    by (simp add: snapshot_objects_def snapshot_connections_def)
qed

text \<open>
  The claim as stated fails on the persistence variant: with nothing enabled, a script
  that sets \<open>scene\<close> to \<open>null\<close> is run and empties the graph.
\<close>

theorem execute_code_persistence_not_gated:
  "objects (sceneState example_server) ''obj_1'' = Some (Obj example_box) \<and>
   fst (execute_code wipe_script True ''scene = null'' example_server) = Executed 0 0 \<and>
   objects (sceneState (snd (execute_code wipe_script True ''scene = null'' example_server)))
     ''obj_1'' = None"
  by (simp add: execute_code_def wipe_script_def example_server_def Let_def
      snapshot_objects_def snapshot_connections_def)

subsection \<open>Scale and dimensions on \<open>add_object\<close>\<close>

text \<open>
  Claim C3, as amended. \<open>add_object\<close> does not check scale or dimensions: whenever the
  colour passes its guard, the call succeeds and the stored object has the kind asked
  for, the scale supplied (the unit scale when none is), and for each dimension its kind
  declares the value supplied (the default of the kind when none is), unchanged whatever
  its sign. So the stored object has positive scale and dimensions whenever every
  supplied value is positive.
\<close>

theorem add_object_stores_dimensions_as_given:
  fixes s :: Server
  assumes "\<not> colorRejected (a_color params)"
  shows "fst (add_object fs_ok ty params s) = ObjectId (''obj_'' @ dec (idCounter s)) \<and>
    (\<exists>ob. objects (sceneState (snd (add_object fs_ok ty params s)))
             (''obj_'' @ dec (idCounter s)) = Some (Obj ob) \<and>
       scale ob = (case a_scale params of None \<Rightarrow> \<lparr> x = 1, y = 1, z = 1 \<rparr> | Some v \<Rightarrow> v) \<and>
       kind_of (geom ob) = ty \<and>
       width_of (geom ob) =
         (if ty = box then Some (case a_width params of None \<Rightarrow> 100 | Some v \<Rightarrow> v)
          else if ty = plane then Some (case a_width params of None \<Rightarrow> 200 | Some v \<Rightarrow> v)
          else None) \<and>
       height_of (geom ob) =
         (if ty = box \<or> ty = cylinder \<or> ty = cone
          then Some (case a_height params of None \<Rightarrow> 100 | Some v \<Rightarrow> v)
          else None) \<and>
       depth_of (geom ob) =
         (if ty = box then Some (case a_depth params of None \<Rightarrow> 100 | Some v \<Rightarrow> v)
          else if ty = plane then Some (case a_depth params of None \<Rightarrow> 200 | Some v \<Rightarrow> v)
          else None) \<and>
       radius_of (geom ob) =
         (if ty = sphere then Some (case a_radius params of None \<Rightarrow> 50 | Some v \<Rightarrow> v)
          else if ty = cylinder \<or> ty = cone
          then Some (case a_radius params of None \<Rightarrow> 25 | Some v \<Rightarrow> v)
          else None) \<and>
       (supplied_positive params \<longrightarrow> positive_dims ob))"
proof -
  have run: "fst (add_object fs_ok ty params s) = ObjectId (''obj_'' @ dec (idCounter s))"
    by (simp add: add_object_accepted [OF assms])
  show ?thesis
    apply (rule conjI [OF run])
    apply (simp add: add_object_accepted [OF assms])
    apply (cases ty)
        apply (simp_all add: orDefault_def supplied_positive_def positive_dims_def
        positive_or_absent_def split: option.splits)
    done
qed

theorem add_object_stores_dimensions_as_given_witness:
  "fst (add_object True box base_box init) = ObjectId ''obj_1'' \<and>
   (\<exists>ob. objects (sceneState (snd (add_object True box base_box init))) ''obj_1''
            = Some (Obj ob) \<and>
         width_of (geom ob) = Some 200 \<and> height_of (geom ob) = Some 20 \<and>
         depth_of (geom ob) = Some 100 \<and> positive_dims ob)"
proof -
  have a: "\<not> colorRejected (a_color base_box)"
    by (simp add: base_box_def colorRejected_def isHexColor_def isHexDigit_def)
  have b: "supplied_positive base_box"
    by (simp add: base_box_def supplied_positive_def positive_or_absent_def)
  from add_object_stores_dimensions_as_given [OF a, of True box init] b
  show ?thesis
    by (auto simp add: init_def dec_one base_box_def)
qed

text \<open>
  The claim as stated fails: a box of width \<open>-5\<close> and scale \<open>(0, 1, 1)\<close> is accepted
  and stored as given.
\<close>

theorem add_object_accepts_nonpositive:
  "fst (add_object True box nonpositive_box init) = ObjectId ''obj_1'' \<and>
   objects (sceneState (snd (add_object True box nonpositive_box init))) ''obj_1''
     = Some (Obj \<lparr> obj_id = ''obj_1'', name = ''flat'', position = \<lparr> x = 0, y = 0, z = 0 \<rparr>,
                   scale = \<lparr> x = 0, y = 1, z = 1 \<rparr>, color = ''#888888'',
                   geom = Box (- 5) 100 100 \<rparr>)"
  by (simp add: add_object_def nextId_def Let_def nonpositive_box_def init_def
      colorRejected_def orDefault_def dec_one)

subsection \<open>The outcomes of \<open>execute_code\<close>\<close>

text \<open>
  Claim C4, as amended. In the persistence variant, when the script throws or runs out of
  time, or when the run that serialises the snapshot afterwards throws or runs out of
  time, \<open>execute_code\<close> answers with an error and the server (graph, counters and file)
  is exactly as it was. Only when both runs finish does the call succeed: the graph is
  then replaced wholesale by the snapshot, the identifier counter is kept and the version
  advances by one. The snapshot is not refused for its structure: a nullish \<open>scene\<close> or
  \<open>objects\<close> is read as the empty table, and a \<open>connections\<close> value that is nullish or
  not a list is read as the empty list.
\<close>

theorem execute_code_outcomes:
  fixes s :: Server
  shows "(run code (sceneState s) = Threw \<or> run code (sceneState s) = TimedOut \<or>
        run code (sceneState s) = Finished SnapshotThrew \<or>
        run code (sceneState s) = Finished SnapshotTimedOut \<longrightarrow>
       execute_code run fs_ok code s = (Failure SandboxExecutionError, s)) \<and>
    (\<forall>v. run code (sceneState s) = Finished (Snapshot v) \<longrightarrow>
       succeeded (fst (execute_code run fs_ok code s)) \<and>
       sceneState (snd (execute_code run fs_ok code s)) =
         \<lparr> objects = (case v of Scene (ObjectsMap m) c \<Rightarrow> m | _ \<Rightarrow> Map.empty),
           connections = (case v of Scene ob (ConnectionsArray l) \<Rightarrow> l | _ \<Rightarrow> []) \<rparr> \<and>
       idCounter (snd (execute_code run fs_ok code s)) = idCounter s \<and>
       sceneVersion (snd (execute_code run fs_ok code s)) = sceneVersion s + 1)"
proof (intro conjI allI impI)
  assume "run code (sceneState s) = Threw \<or> run code (sceneState s) = TimedOut \<or>
        run code (sceneState s) = Finished SnapshotThrew \<or>
        run code (sceneState s) = Finished SnapshotTimedOut"
  then have "snapshot_of (run code (sceneState s)) = None"
    by auto
  then show "execute_code run fs_ok code s = (Failure SandboxExecutionError, s)"
    by (simp add: execute_code_failed)
next
  fix v
  assume "run code (sceneState s) = Finished (Snapshot v)"
  then have v: "snapshot_of (run code (sceneState s)) = Some v"
    by simp
  note run = execute_code_finished
      [where run = run and code = code and s = s and fs_ok = fs_ok, OF v]
  show "succeeded (fst (execute_code run fs_ok code s))"
    by (simp add: run)
  show "sceneState (snd (execute_code run fs_ok code s)) =
         \<lparr> objects = (case v of Scene (ObjectsMap m) c \<Rightarrow> m | _ \<Rightarrow> Map.empty),
           connections = (case v of Scene ob (ConnectionsArray l) \<Rightarrow> l | _ \<Rightarrow> []) \<rparr>"
    by (simp add: run snapshot_objects_def snapshot_connections_def
        split: scene_value.splits objects_field.splits connections_field.splits)
  show "idCounter (snd (execute_code run fs_ok code s)) = idCounter s"
    by (simp add: run)
  show "sceneVersion (snd (execute_code run fs_ok code s)) = sceneVersion s + 1"
    by (simp add: run)
qed

text \<open>
  The theorem on the server of the examples: a script that throws and the script
  \<open>delete scene\<close>, after which the snapshot run throws, both leave the server as it
  was; the script \<open>scene = null\<close> succeeds and empties the graph.
\<close>

theorem execute_code_outcomes_witness:
  "execute_code throwing_script True ''throw new Error()'' example_server
     = (Failure SandboxExecutionError, example_server) \<and>
   execute_code unbind_script True ''delete scene'' example_server
     = (Failure SandboxExecutionError, example_server) \<and>
   sceneState (snd (execute_code wipe_script True ''scene = null'' example_server))
     = \<lparr> objects = Map.empty, connections = [] \<rparr> \<and>
   sceneVersion (snd (execute_code wipe_script True ''scene = null'' example_server)) = 2"
proof -
  have a: "throwing_script ''throw new Error()'' (sceneState example_server) = Threw"
    by (simp add: throwing_script_def)
  have u: "unbind_script ''delete scene'' (sceneState example_server) = Finished SnapshotThrew"
    by (simp add: unbind_script_def)
  have b: "wipe_script ''scene = null'' (sceneState example_server)
      = Finished (Snapshot SceneNullish)"
    by (simp add: wipe_script_def)
  have c: "sceneVersion example_server = 1"
    by (simp add: example_server_def)
  from execute_code_outcomes [of throwing_script "''throw new Error()''" example_server True] a
    execute_code_outcomes [of unbind_script "''delete scene''" example_server True] u
    execute_code_outcomes [of wipe_script "''scene = null''" example_server True] b c
  show ?thesis by simp
qed

text \<open>
  The claim as stated fails: a script that leaves the number 5 in \<open>scene.connections\<close>
  (and an empty table in \<open>scene.objects\<close>) is not refused; the call succeeds and the
  canonical graph loses its object.
\<close>

theorem execute_code_accepts_non_list:
  "objects (sceneState example_server) ''obj_1'' = Some (Obj example_box) \<and>
   fst (execute_code not_a_list_script True
          ''scene.objects = {}; scene.connections = 5'' example_server) = Executed 0 0 \<and>
   objects (sceneState (snd (execute_code not_a_list_script True
          ''scene.objects = {}; scene.connections = 5'' example_server))) ''obj_1'' = None"
  by (simp add: execute_code_def not_a_list_script_def example_server_def Let_def
      snapshot_objects_def snapshot_connections_def)

subsection \<open>One commit for each successful change\<close>

text \<open>
  Claim C5. For every tool call of the persistence variant: when the call succeeds and
  the tool is not \<open>get_scene_state\<close>, the resulting server is the result of exactly one
  \<open>commitState\<close> on a state that still has the old version and the old file contents, so
  the version counter is the old one plus one; and when the file write succeeds, the file
  holds the new graph, the new identifier counter and that version. When the call fails,
  or the tool is \<open>get_scene_state\<close>, the server (version counter and file included) is
  exactly as it was.
\<close>

theorem commit_once_per_success:
  fixes s :: Server
  shows "(let r = step run fs_ok c s in
     if succeeded (fst r) \<and> c \<noteq> GetSceneState
     then sceneVersion (snd r) = sceneVersion s + 1 \<and>
          (\<exists>s1. snd r = commitState fs_ok s1 \<and> sceneVersion s1 = sceneVersion s \<and>
                disk s1 = disk s) \<and>
          (if fs_ok
           then disk (snd r) = Some \<lparr> p_sceneState = sceneState (snd r),
                                       p_idCounter = idCounter (snd r),
                                       p_sceneVersion = sceneVersion s + 1 \<rparr>
           else disk (snd r) = disk s)
     else snd r = s)"
proof (cases c)
  case GetSceneState
  then show ?thesis by (simp add: get_scene_state_def)
next
  case (AddObject ty params)
  with fails_or_commits_version [OF fails_or_commits_add [of fs_ok s ty params]]
  show ?thesis by (simp add: Let_def)
next
  case (UpdateObject ident params)
  with fails_or_commits_version [OF fails_or_commits_update [of fs_ok s ident params]]
  show ?thesis by (simp add: Let_def)
next
  case (DeleteObject ident)
  with fails_or_commits_version [OF fails_or_commits_delete [of fs_ok s ident]]
  show ?thesis by (simp add: Let_def)
next
  case (Connect fromId faceA toId faceB)
  with fails_or_commits_version [OF fails_or_commits_connect [of fs_ok s fromId faceA toId faceB]]
  show ?thesis by (simp add: Let_def)
next
  case ClearScene
  with fails_or_commits_version [OF fails_or_commits_clear [of fs_ok s]]
  show ?thesis by (simp add: Let_def)
next
  case (ExecuteCode code)
  with fails_or_commits_version [OF fails_or_commits_execute [of fs_ok s run code]]
  show ?thesis by (simp add: Let_def)
qed

text \<open>
  The theorem on the server of the examples, at version 1: a successful deletion leads to
  version 2 and writes it to the file; a failing deletion and a read change nothing.
\<close>

theorem commit_once_per_success_witness:
  "sceneVersion (snd (step wipe_script True (DeleteObject ''obj_1'') example_server)) = 2 \<and>
   map_option p_sceneVersion
     (disk (snd (step wipe_script True (DeleteObject ''obj_1'') example_server))) = Some 2 \<and>
   snd (step wipe_script True (DeleteObject ''obj_9'') example_server) = example_server \<and>
   snd (step wipe_script True GetSceneState example_server) = example_server"
proof -
  have a: "fst (step wipe_script True (DeleteObject ''obj_1'') example_server) = Deleted ''obj_1''"
    by (simp add: delete_object_def assertObject_def example_server_def Let_def)
  have b: "fst (step wipe_script True (DeleteObject ''obj_9'') example_server)
      = Failure (NotFound ''obj_9'')"
    by (simp add: delete_object_def assertObject_def example_server_def inherited_def)
  have c: "sceneVersion example_server = 1"
    by (simp add: example_server_def)
  from commit_once_per_success [of wipe_script True "DeleteObject ''obj_1''" example_server]
    commit_once_per_success [of wipe_script True "DeleteObject ''obj_9''" example_server]
    commit_once_per_success [of wipe_script True GetSceneState example_server]
    a b c
  show ?thesis by (simp add: Let_def)
qed

subsection \<open>The colour guard\<close>

text \<open>
  Claim C6, at the input where the code departs from it. The empty string does not match
  \<open>^#[0-9a-fA-F]{6}$\<close>, yet \<open>add_object\<close> with the colour \<open>""\<close> succeeds, takes an
  identifier and stores the object with the empty colour; \<open>update_object\<close> with the colour
  \<open>""\<close> succeeds as well and overwrites the stored colour by the empty string.
\<close>

theorem empty_color_accepted:
  "\<not> isHexColor [] \<and>
   fst (add_object True box empty_color_box init) = ObjectId ''obj_1'' \<and>
   idCounter (snd (add_object True box empty_color_box init)) = 2 \<and>
   objects (sceneState (snd (add_object True box empty_color_box init))) ''obj_1''
     = Some (Obj \<lparr> obj_id = ''obj_1'', name = ''a'', position = \<lparr> x = 0, y = 0, z = 0 \<rparr>,
                   scale = \<lparr> x = 1, y = 1, z = 1 \<rparr>, color = [], geom = Box 100 100 100 \<rparr>) \<and>
   fst (update_object True ''obj_1'' (only_color []) example_server) = ObjectId ''obj_1'' \<and>
   objects (sceneState (snd (update_object True ''obj_1'' (only_color []) example_server))) ''obj_1''
     = Some (Obj (example_box\<lparr> color := [] \<rparr>))"
  by (simp add: isHexColor_def add_object_def update_object_def assertObject_def nextId_def
      Let_def empty_color_box_def only_color_def example_server_def init_def
      colorRejected_def orDefault_def dec_one)

text \<open>
  Beside it: every other colour that does not match is refused by both tools with the
  server left as it was.
\<close>

lemma malformed_color_rejected:
  fixes s :: Server
  assumes "c \<noteq> []" and "\<not> isHexColor c"
  shows "add_object fs_ok ty (params\<lparr> a_color := Some c \<rparr>) s = (Failure (InvalidColor c), s)"
    and "objects (sceneState s) ident = Some e \<Longrightarrow>
         update_object fs_ok ident (uparams\<lparr> u_color := Some c \<rparr>) s
           = (Failure (InvalidColor c), s)"
  using assms
  by (simp_all add: add_object_def update_object_def assertObject_def colorRejected_def)

subsection \<open>Referential integrity\<close>

text \<open>
  Claim C7, as amended. Starting from a graph in which every connection names keys of the
  table, every tool call other than \<open>execute_code\<close> (\<open>get_scene_state\<close>, \<open>add_object\<close>,
  \<open>update_object\<close>, \<open>delete_object\<close>, \<open>connect\<close>, \<open>clear_scene\<close>), successful or not,
  leads to a graph with the same property; a successful \<open>delete_object\<close> removes the key
  and, in the same step, every connection that names it. \<open>execute_code\<close> stores the
  script's snapshot unchecked: when both runs finish the graph has the property exactly
  when the snapshot has it.
\<close>

theorem integrity_preserved_by_tools:
  fixes s :: Server
  assumes "ref_integrity (sceneState s)"
  shows "(\<not> is_execute c \<longrightarrow> ref_integrity (sceneState (snd (step run fs_ok c s)))) \<and>
    (succeeded (fst (delete_object fs_ok ident s)) \<longrightarrow>
       objects (sceneState (snd (delete_object fs_ok ident s))) ident = None \<and>
       list_all (\<lambda>c. from_id c \<noteq> ident \<and> to_id c \<noteq> ident)
         (connections (sceneState (snd (delete_object fs_ok ident s))))) \<and>
    (ref_integrity (sceneState (snd (execute_code run fs_ok code s))) =
       (case run code (sceneState s) of
          Finished (Snapshot v) \<Rightarrow>
            ref_integrity \<lparr> objects = snapshot_objects v, connections = snapshot_connections v \<rparr>
        | _ \<Rightarrow> True))"
proof (intro conjI)
  show "\<not> is_execute c \<longrightarrow> ref_integrity (sceneState (snd (step run fs_ok c s)))"
    using assms
    by (cases c)
       (simp_all add: get_scene_state_def ref_integrity_add ref_integrity_update
         ref_integrity_delete ref_integrity_connect ref_integrity_clear)
next
  show "succeeded (fst (delete_object fs_ok ident s)) \<longrightarrow>
       objects (sceneState (snd (delete_object fs_ok ident s))) ident = None \<and>
       list_all (\<lambda>c. from_id c \<noteq> ident \<and> to_id c \<noteq> ident)
         (connections (sceneState (snd (delete_object fs_ok ident s))))"
    by (cases "assertObject (sceneState s) ident")
       (simp_all add: delete_object_found delete_object_failed list_all_iff)
next
  show "ref_integrity (sceneState (snd (execute_code run fs_ok code s))) =
       (case run code (sceneState s) of
          Finished (Snapshot v) \<Rightarrow>
            ref_integrity \<lparr> objects = snapshot_objects v, connections = snapshot_connections v \<rparr>
        | _ \<Rightarrow> True)"
    using assms
    by (cases "run code (sceneState s)" rule: snapshot_of.cases)
       (simp_all add: execute_code_sceneState)
qed

text \<open>
  The theorem on the server of the examples after its box was connected to itself: the
  graph has the property, and deleting the box leaves no connection.
\<close>

theorem integrity_preserved_by_tools_witness:
  "ref_integrity (sceneState (snd (connect True ''obj_1'' FTop ''obj_1'' FBottom example_server))) \<and>
   ref_integrity (sceneState (snd (step wipe_script True (DeleteObject ''obj_1'')
       (snd (connect True ''obj_1'' FTop ''obj_1'' FBottom example_server))))) \<and>
   connections (sceneState (snd (delete_object True ''obj_1''
       (snd (connect True ''obj_1'' FTop ''obj_1'' FBottom example_server))))) = []"
proof -
  let ?s = "snd (connect True ''obj_1'' FTop ''obj_1'' FBottom example_server)"
  have c: "connections (sceneState ?s)
      = [\<lparr> from_id = ''obj_1'', face_a = FTop, to_id = ''obj_1'', face_b = FBottom \<rparr>]"
    by (simp add: connect_def assertObject_def example_server_def Let_def)
  obtain e where e: "objects (sceneState ?s) ''obj_1'' = Some e"
    by (simp add: connect_def assertObject_def example_server_def Let_def)
  have a: "ref_integrity (sceneState ?s)"
    by (simp add: ref_integrity_def c e)
  have del: "delete_object True ''obj_1'' ?s =
     (Deleted ''obj_1'',
      commitState True (?s\<lparr> sceneState :=
         \<lparr> objects = (objects (sceneState ?s))(''obj_1'' := None),
           connections = filter (\<lambda>c. from_id c \<noteq> ''obj_1'' \<and> to_id c \<noteq> ''obj_1'')
                           (connections (sceneState ?s)) \<rparr> \<rparr>))"
    by (rule delete_object_found [OF assertObject_own [OF e]])
  have d: "connections (sceneState (snd (delete_object True ''obj_1'' ?s))) = []"
    by (simp add: del c)
  from integrity_preserved_by_tools
      [OF a, of "DeleteObject ''obj_1''" wipe_script True "''obj_1''" "[]"]
  have p: "ref_integrity (sceneState (snd (step wipe_script True (DeleteObject ''obj_1'') ?s)))"
    by simp
  show ?thesis
    by (intro conjI) (rule a, rule p, rule d)
qed

text \<open>
  The claim as stated fails for \<open>execute_code\<close>: on the empty graph, the script
  \<open>push_code\<close>, which pushes a connection from \<open>obj_1\<close> to \<open>obj_2\<close> and adds no
  object, succeeds, and the resulting graph has that connection and no key at all.
\<close>

theorem execute_code_breaks_integrity:
  "ref_integrity (sceneState init) \<and>
   fst (step push_script True (ExecuteCode push_code) init) = Executed 0 1 \<and>
   objects (sceneState (snd (step push_script True (ExecuteCode push_code) init))) ''obj_1''
     = None \<and>
   connections (sceneState (snd (step push_script True (ExecuteCode push_code) init)))
     = [\<lparr> from_id = ''obj_1'', face_a = FTop, to_id = ''obj_2'', face_b = FBottom \<rparr>] \<and>
   \<not> ref_integrity (sceneState (snd (step push_script True (ExecuteCode push_code) init)))"
  by (simp add: ref_integrity_def init_def execute_code_def push_script_def Let_def
      snapshot_objects_def snapshot_connections_def)

subsection \<open>Partial updates\<close>

text \<open>
  Claim C8. For every object of the graph and every payload whose colour passes the guard
  (a payload whose colour is refused makes the call fail and changes nothing),
  \<open>update_object\<close> succeeds and the stored object differs from the old one in the fields
  of the payload only: \<open>name\<close>, \<open>position\<close>, \<open>scale\<close> and \<open>color\<close> take the payload's
  value when it has one and keep theirs otherwise; the identifier and the kind are kept;
  each of \<open>width\<close>, \<open>height\<close>, \<open>depth\<close> and \<open>radius\<close> takes the payload's value when
  the payload has one and the kind declares the field, and is otherwise as before (absent
  when the kind does not declare it). A payload with nothing but a radius leaves a box
  exactly as it was. No other entry, no connection and not the identifier counter changes.
\<close>

theorem update_changes_only_payload_fields:
  fixes s :: Server
  assumes "objects (sceneState s) ident = Some (Obj ob)"
    and "\<not> colorRejected (u_color params)"
  shows "fst (update_object fs_ok ident params s) = ObjectId ident \<and>
    (\<exists>ob'. objects (sceneState (snd (update_object fs_ok ident params s))) ident
              = Some (Obj ob') \<and>
       obj_id ob' = obj_id ob \<and>
       name ob' = (case u_name params of None \<Rightarrow> name ob | Some v \<Rightarrow> v) \<and>
       position ob' = (case u_position params of None \<Rightarrow> position ob | Some v \<Rightarrow> v) \<and>
       scale ob' = (case u_scale params of None \<Rightarrow> scale ob | Some v \<Rightarrow> v) \<and>
       color ob' = (case u_color params of None \<Rightarrow> color ob | Some v \<Rightarrow> v) \<and>
       kind_of (geom ob') = kind_of (geom ob) \<and>
       width_of (geom ob') =
         (case (width_of (geom ob), u_width params) of
            (Some w, Some v) \<Rightarrow> Some v | (old, _) \<Rightarrow> old) \<and>
       height_of (geom ob') =
         (case (height_of (geom ob), u_height params) of
            (Some w, Some v) \<Rightarrow> Some v | (old, _) \<Rightarrow> old) \<and>
       depth_of (geom ob') =
         (case (depth_of (geom ob), u_depth params) of
            (Some w, Some v) \<Rightarrow> Some v | (old, _) \<Rightarrow> old) \<and>
       radius_of (geom ob') =
         (case (radius_of (geom ob), u_radius params) of
            (Some w, Some v) \<Rightarrow> Some v | (old, _) \<Rightarrow> old) \<and>
       (kind_of (geom ob) = box \<and>
        params = \<lparr> u_name = None, u_position = None, u_scale = None, u_color = None,
                   u_width = None, u_height = None, u_depth = None,
                   u_radius = u_radius params \<rparr> \<longrightarrow> ob' = ob)) \<and>
    (\<forall>k. k \<noteq> ident \<longrightarrow>
       objects (sceneState (snd (update_object fs_ok ident params s))) k
         = objects (sceneState s) k) \<and>
    connections (sceneState (snd (update_object fs_ok ident params s)))
      = connections (sceneState s) \<and>
    idCounter (snd (update_object fs_ok ident params s)) = idCounter s"
proof -
  define ob' where "ob' = ob\<lparr> name := orDefault (u_name params) (name ob),
      position := orDefault (u_position params) (position ob),
      scale := orDefault (u_scale params) (scale ob),
      color := orDefault (u_color params) (color ob),
      geom := set_radius (u_radius params) (set_depth (u_depth params)
                (set_height (u_height params) (set_width (u_width params) (geom ob)))) \<rparr>"
  have run: "update_object fs_ok ident params s =
     (ObjectId ident,
      commitState fs_ok (s\<lparr> sceneState := (sceneState s)
        \<lparr> objects := (objects (sceneState s))(ident \<mapsto> Obj ob') \<rparr> \<rparr>))"
    unfolding ob'_def by (rule update_object_accepted [OF assms])
  have stored: "objects (sceneState (snd (update_object fs_ok ident params s))) ident
      = Some (Obj ob')"
    by (simp add: run)
  have common: "obj_id ob' = obj_id ob"
      "name ob' = (case u_name params of None \<Rightarrow> name ob | Some v \<Rightarrow> v)"
      "position ob' = (case u_position params of None \<Rightarrow> position ob | Some v \<Rightarrow> v)"
      "scale ob' = (case u_scale params of None \<Rightarrow> scale ob | Some v \<Rightarrow> v)"
      "color ob' = (case u_color params of None \<Rightarrow> color ob | Some v \<Rightarrow> v)"
    by (simp_all add: ob'_def orDefault_def)
  have dims: "kind_of (geom ob') = kind_of (geom ob)"
      "width_of (geom ob') = updated_dim (u_width params) (width_of (geom ob))"
      "height_of (geom ob') = updated_dim (u_height params) (height_of (geom ob))"
      "depth_of (geom ob') = updated_dim (u_depth params) (depth_of (geom ob))"
      "radius_of (geom ob') = updated_dim (u_radius params) (radius_of (geom ob))"
    by (simp_all add: ob'_def)
  have same: "ob' = ob"
    if "kind_of (geom ob) = box \<and>
        params = \<lparr> u_name = None, u_position = None, u_scale = None, u_color = None,
                   u_width = None, u_height = None, u_depth = None,
                   u_radius = u_radius params \<rparr>"
  proof -
    from that have k: "kind_of (geom ob) = box"
      and p: "u_name params = None" "u_position params = None" "u_scale params = None"
        "u_color params = None" "u_width params = None" "u_height params = None"
        "u_depth params = None"
      by (cases params; simp)+
    show ?thesis
      by (simp add: ob'_def p orDefault_def radius_on_box [OF k])
  qed
  have frame: "\<forall>k. k \<noteq> ident \<longrightarrow>
       objects (sceneState (snd (update_object fs_ok ident params s))) k
         = objects (sceneState s) k"
    by (simp add: run)
  have rest: "connections (sceneState (snd (update_object fs_ok ident params s)))
        = connections (sceneState s)"
      "idCounter (snd (update_object fs_ok ident params s)) = idCounter s"
      "fst (update_object fs_ok ident params s) = ObjectId ident"
    by (simp_all add: run)
  show ?thesis
    apply (intro conjI exI [of _ ob'])
                   apply (rule rest(3))
                  apply (rule stored)
                 apply (rule common(1))
                apply (rule common(2))
               apply (rule common(3))
              apply (rule common(4))
             apply (rule common(5))
            apply (rule dims(1))
           apply (simp only: dim_case dims(2))
          apply (simp only: dim_case dims(3))
         apply (simp only: dim_case dims(4))
        apply (simp only: dim_case dims(5))
       apply (rule impI, erule same)
      apply (rule frame)
     apply (rule rest(1))
    apply (rule rest(2))
    done
qed

text \<open>The theorem on the box of the examples, updated with a radius alone.\<close>

theorem update_changes_only_payload_fields_witness:
  "fst (update_object True ''obj_1'' (only_radius 7) example_server) = ObjectId ''obj_1'' \<and>
   objects (sceneState (snd (update_object True ''obj_1'' (only_radius 7) example_server)))
     ''obj_1'' = Some (Obj example_box)"
proof -
  have a: "objects (sceneState example_server) ''obj_1'' = Some (Obj example_box)"
    by (simp add: example_server_def)
  have b: "\<not> colorRejected (u_color (only_radius 7))"
    by (simp add: only_radius_def colorRejected_def)
  have c: "kind_of (geom example_box) = box"
    by (simp add: example_box_def)
  have d: "only_radius 7 = \<lparr> u_name = None, u_position = None, u_scale = None,
            u_color = None, u_width = None, u_height = None, u_depth = None,
            u_radius = u_radius (only_radius 7) \<rparr>"
    by (simp add: only_radius_def)
  from update_changes_only_payload_fields [OF a b, of True] c d show ?thesis
    by metis
qed

subsection \<open>Identifier allocation\<close>

text \<open>
  Claim C9. The identifier counter of a fresh server is 1. Whenever \<open>add_object\<close>
  succeeds it returns \<open>obj_N\<close> for the current value \<open>N\<close> of the counter. For any two
  successful \<open>add_object\<close> calls with any sequence of tool calls between them that
  contains no \<open>clear_scene\<close> (deletions of earlier objects included), the second number
  is strictly greater than the first and the two identifiers differ. After
  \<open>clear_scene\<close>, a successful \<open>add_object\<close> returns \<open>obj_1\<close>.
\<close>

theorem identifiers_sequential:
  "idCounter init = 1 \<and>
   (\<forall>(s::Server) run fs1 ty1 p1 cs fs2 ty2 p2 i j.
      fst (add_object fs1 ty1 p1 s) = ObjectId i \<and>
      list_all (\<lambda>(fs_ok, c). c \<noteq> ClearScene) cs \<and>
      fst (add_object fs2 ty2 p2 (run_ops run cs (snd (add_object fs1 ty1 p1 s)))) = ObjectId j \<longrightarrow>
      i = ''obj_'' @ dec (idCounter s) \<and>
      j = ''obj_'' @ dec (idCounter (run_ops run cs (snd (add_object fs1 ty1 p1 s)))) \<and>
      idCounter s < idCounter (run_ops run cs (snd (add_object fs1 ty1 p1 s))) \<and>
      i \<noteq> j) \<and>
   (\<forall>(s::Server) fs1 fs2 ty p.
      succeeded (fst (add_object fs2 ty p (snd (clear_scene fs1 s)))) \<longrightarrow>
      fst (add_object fs2 ty p (snd (clear_scene fs1 s))) = ObjectId ''obj_1'')"
proof (intro conjI allI impI)
  show "idCounter init = 1" by (simp add: init_def)
next
  fix s :: Server and run fs1 ty1 p1 cs fs2 ty2 p2 i j
  assume h: "fst (add_object fs1 ty1 p1 s) = ObjectId i \<and>
      list_all (\<lambda>(fs_ok, c). c \<noteq> ClearScene) cs \<and>
      fst (add_object fs2 ty2 p2 (run_ops run cs (snd (add_object fs1 ty1 p1 s)))) = ObjectId j"
  let ?s' = "run_ops run cs (snd (add_object fs1 ty1 p1 s))"
  from h add_object_result [of fs1 ty1 p1 s i]
  have i: "i = ''obj_'' @ dec (idCounter s)"
    and n: "idCounter (snd (add_object fs1 ty1 p1 s)) = idCounter s + 1" by simp_all
  from h add_object_result [of fs2 ty2 p2 ?s' j]
  have j: "j = ''obj_'' @ dec (idCounter ?s')" by simp
  from h have "idCounter (snd (add_object fs1 ty1 p1 s)) \<le> idCounter ?s'"
    by (intro run_ops_idCounter) simp
  with n have lt: "idCounter s < idCounter ?s'" by simp
  have ne: "i \<noteq> j"
  proof
    assume "i = j"
    with i j have "dec (idCounter s) = dec (idCounter ?s')" by simp
    then have "idCounter s = idCounter ?s'" by (rule dec_inj)
    with lt show False by simp
  qed
  show "i = ''obj_'' @ dec (idCounter s)" by (rule i)
  show "j = ''obj_'' @ dec (idCounter ?s')" by (rule j)
  show "idCounter s < idCounter ?s'" by (rule lt)
  show "i \<noteq> j" by (rule ne)
next
  fix s :: Server and fs1 fs2 ty p
  assume "succeeded (fst (add_object fs2 ty p (snd (clear_scene fs1 s))))"
  then show "fst (add_object fs2 ty p (snd (clear_scene fs1 s))) = ObjectId ''obj_1''"
    by (cases "colorRejected (a_color p)")
       (simp_all add: add_object_def nextId_def clear_scene_def Let_def dec_one)
qed

text \<open>
  The theorem on a fresh server: add, delete the object, add again gives \<open>obj_1\<close> and
  then \<open>obj_2\<close>; after \<open>clear_scene\<close> the next object is \<open>obj_1\<close> again.
\<close>

theorem identifiers_sequential_witness:
  "fst (add_object True box plain_box init) = ObjectId ''obj_1'' \<and>
   fst (add_object True box plain_box
         (run_ops wipe_script [(True, DeleteObject ''obj_1'')]
            (snd (add_object True box plain_box init)))) = ObjectId ''obj_2'' \<and>
   idCounter init
     < idCounter (run_ops wipe_script [(True, DeleteObject ''obj_1'')]
                    (snd (add_object True box plain_box init))) \<and>
   fst (add_object True box plain_box (snd (clear_scene True example_server)))
     = ObjectId ''obj_1''"
proof -
  let ?s1 = "snd (add_object True box plain_box init)"
  let ?s2 = "run_ops wipe_script [(True, DeleteObject ''obj_1'')] ?s1"
  have a: "fst (add_object True box plain_box init) = ObjectId ''obj_1''"
    by (simp add: add_object_def nextId_def Let_def plain_box_def init_def colorRejected_def
        dec_one)
  have b: "fst (add_object True box plain_box ?s2) = ObjectId ''obj_2''"
    by (simp add: add_object_def nextId_def Let_def plain_box_def init_def colorRejected_def
        delete_object_def assertObject_def dec_one dec_two)
  have c: "list_all (\<lambda>(fs_ok, c). c \<noteq> ClearScene) [(True, DeleteObject ''obj_1'')]"
    by simp
  have d: "succeeded (fst (add_object True box plain_box (snd (clear_scene True example_server))))"
    by (simp add: add_object_def nextId_def Let_def plain_box_def colorRejected_def)
  note t = identifiers_sequential [THEN conjunct2, THEN conjunct1, rule_format,
      OF conjI [OF a conjI [OF c b]]]
  note lt = t [THEN conjunct2, THEN conjunct2, THEN conjunct1]
  note e = identifiers_sequential [THEN conjunct2, THEN conjunct2, rule_format, OF d]
  show ?thesis
    by (intro conjI) (rule a, rule b, rule lt, rule e)
qed

subsection \<open>The existence check of \<open>update_object\<close>\<close>

text \<open>
  Claim C10, at the input where the code departs from it. On a fresh server the table
  has no key \<open>constructor\<close>; still \<open>update_object\<close> with that identifier and the colour
  \<open>red\<close> does not answer that the object was not found: the read
  \<open>sceneState.objects["constructor"]\<close> yields the inherited function, the existence check
  passes, and the answer is the invalid-colour error.
\<close>

theorem update_inherited_name_reaches_color_check:
  "objects (sceneState init) ''constructor'' = None \<and>
   update_object True ''constructor'' (only_color ''red'') init
     = (Failure (InvalidColor ''red''), init)"
  by (simp add: update_object_def assertObject_def inherited_def init_def only_color_def
      colorRejected_def isHexColor_def)

text \<open>
  Beside it: for an identifier that is neither a key of the table nor a name inherited
  from \<open>Object.prototype\<close>, the existence check comes first, whatever the payload; and an
  invalid-colour answer is only given when the identifier is a key or an inherited name.
\<close>

lemma update_object_existence_first:
  fixes s :: Server
  shows "objects (sceneState s) ident = None \<Longrightarrow> \<not> inherited ident \<Longrightarrow>
      update_object fs_ok ident params s = (Failure (NotFound ident), s)"
    and "fst (update_object fs_ok ident params s) = Failure (InvalidColor c) \<Longrightarrow>
      objects (sceneState s) ident \<noteq> None \<or> inherited ident"
  by (auto simp add: update_object_def assertObject_def Let_def
      split: option.splits if_splits)

end
